theory Spec2Isabelle
  imports Main
begin

section \<open>Strings\<close>

text \<open>
  Python's \<open>str\<close> is modelled as \<open>string\<close>: a character is a code point below
  256. The string methods and the character classes of \<open>re\<close> that the source uses
  (\<open>lower\<close>, \<open>strip\<close>, \<open>in\<close>, \<open>isdigit\<close>, \<open>split\<close>, \<open>\s\<close>, \<open>\d\<close>, \<open>\w\<close>) are
  written out as Python defines them on these code points.
\<close>

text \<open>
  \<open>str.lower\<close> changes the letters A to Z and the capital letters from U+00C0 to
  U+00DE (all but the multiplication sign U+00D7), each to the code point 32 above it.
\<close>

definition upper_chars :: string where
  "upper_chars =
     ''ABCDEFGHIJKLMNOPQRSTUVWXYZ'' @
     [CHR 0xC0, CHR 0xC1, CHR 0xC2, CHR 0xC3, CHR 0xC4, CHR 0xC5, CHR 0xC6, CHR 0xC7,
      CHR 0xC8, CHR 0xC9, CHR 0xCA, CHR 0xCB, CHR 0xCC, CHR 0xCD, CHR 0xCE, CHR 0xCF,
      CHR 0xD0, CHR 0xD1, CHR 0xD2, CHR 0xD3, CHR 0xD4, CHR 0xD5, CHR 0xD6,
      CHR 0xD8, CHR 0xD9, CHR 0xDA, CHR 0xDB, CHR 0xDC, CHR 0xDD, CHR 0xDE]"

definition lower_chars :: string where
  "lower_chars =
     ''abcdefghijklmnopqrstuvwxyz'' @
     [CHR 0xE0, CHR 0xE1, CHR 0xE2, CHR 0xE3, CHR 0xE4, CHR 0xE5, CHR 0xE6, CHR 0xE7,
      CHR 0xE8, CHR 0xE9, CHR 0xEA, CHR 0xEB, CHR 0xEC, CHR 0xED, CHR 0xEE, CHR 0xEF,
      CHR 0xF0, CHR 0xF1, CHR 0xF2, CHR 0xF3, CHR 0xF4, CHR 0xF5, CHR 0xF6,
      CHR 0xF8, CHR 0xF9, CHR 0xFA, CHR 0xFB, CHR 0xFC, CHR 0xFD, CHR 0xFE]"

definition lower_char :: "char \<Rightarrow> char" where
  "lower_char c =
     (case map_of (zip upper_chars lower_chars) c of
        Some d \<Rightarrow> d
      | None \<Rightarrow> c)"

definition lower :: "string \<Rightarrow> string" where
  "lower s = map lower_char s"

fun startswith :: "string \<Rightarrow> string \<Rightarrow> bool" where
  "startswith s [] = True"
| "startswith [] (p # ps) = False"
| "startswith (c # cs) (p # ps) = (c = p \<and> startswith cs ps)"

text \<open>\<open>contains s sub\<close> is Python's \<open>sub in s\<close>.\<close>

fun contains :: "string \<Rightarrow> string \<Rightarrow> bool" where
  "contains [] sub = (sub = [])"
| "contains (c # cs) sub = (startswith (c # cs) sub \<or> contains cs sub)"

text \<open>
  The digits that \<open>\d\<close> matches and that \<open>int\<close> reads, and the ASCII letters of the
  classes \<open>[a-zA-Z]\<close>.
\<close>

definition is_digit :: "char \<Rightarrow> bool" where
  "is_digit c = (c \<in> set ''0123456789'')"

definition is_upper_letter :: "char \<Rightarrow> bool" where
  "is_upper_letter c = (c \<in> set ''ABCDEFGHIJKLMNOPQRSTUVWXYZ'')"

definition is_lower_letter :: "char \<Rightarrow> bool" where
  "is_lower_letter c = (c \<in> set ''abcdefghijklmnopqrstuvwxyz'')"

definition is_letter :: "char \<Rightarrow> bool" where
  "is_letter c = (is_upper_letter c \<or> is_lower_letter c)"

text \<open>
  The characters for which \<open>str.isspace\<close> holds, which \<open>strip\<close> and \<open>split\<close> remove
  and which \<open>\s\<close> matches: tab, line feed, vertical tab, form feed, carriage return, the
  four separators 28 to 31, the space, the next-line control U+0085 and the no-break
  space U+00A0.
\<close>

definition is_space :: "char \<Rightarrow> bool" where
  "is_space c =
     (c \<in> set [CHR 0x09, CHR 0x0A, CHR 0x0B, CHR 0x0C, CHR 0x0D, CHR 0x1C, CHR 0x1D, CHR 0x1E,
                CHR 0x1F, CHR 0x20, CHR 0x85, CHR 0xA0])"

definition strip :: "string \<Rightarrow> string" where
  "strip s = rev (dropWhile is_space (rev (dropWhile is_space s)))"

text \<open>Python's truth value of an optional string: \<open>None\<close> and \<open>''\<close> are false.\<close>

fun truthy :: "string option \<Rightarrow> bool" where
  "truthy None = False"
| "truthy (Some s) = (s \<noteq> [])"

section \<open>Calendar events\<close>

text \<open>
  The fields of a Google Calendar event dict that the source reads. A field that the
  source reads with \<open>.get\<close> is optional; \<open>ev_attendees\<close> is the list of the attendees'
  \<open>email\<close> entries, \<open>ev_organizer\<close> and \<open>ev_creator\<close> are the \<open>email\<close> entries of the
  \<open>organizer\<close> and \<open>creator\<close> dicts (an attendee without the key is \<open>None\<close>).
  \<open>ev_start\<close> is \<open>None\<close> for an event without the key \<open>start\<close>; otherwise it holds
  the \<open>dateTime\<close> of the start, or its \<open>date\<close>, if the start has one. The
  conference data and the end of an event are not part of the record.
\<close>

record event =
  ev_id :: string
  ev_summary :: "string option"
  ev_attendees :: "string option list option"
  ev_organizer :: "string option"
  ev_creator :: "string option"
  ev_start :: "string option option"

text \<open>\<open>d.get('email', '')\<close> on an optional entry.\<close>

fun get_or_empty :: "string option \<Rightarrow> string" where
  "get_or_empty None = []"
| "get_or_empty (Some s) = s"

text \<open>\<open>event.get('start', {}).get('dateTime', ... .get('date'))\<close>\<close>

definition start_text :: "event \<Rightarrow> string option" where
  "start_text e = (case ev_start e of None \<Rightarrow> None | Some t \<Rightarrow> t)"

section \<open>The organizer check (app.py, get_scheduled_meetings_from_calendar and chat_route)\<close>

text \<open>
  The source writes
  \<^verbatim>\<open>
  is_user_organizer = (
      organizer.get('email', '').lower() == user_email.lower() if user_email else False or
      creator.get('email', '').lower() == user_email.lower() if user_email else False
  )
  \<close>
  A conditional expression binds weaker than \<open>or\<close> and groups to the right, so Python
  reads this as \<open>A if user_email else ((False or B) if user_email else False)\<close>. The
  definition keeps that grouping.
\<close>

definition is_user_organizer :: "string option \<Rightarrow> string option \<Rightarrow> string option \<Rightarrow> bool" where
  "is_user_organizer organizer_email creator_email user_email =
     (if truthy user_email
      then lower (get_or_empty organizer_email) = lower (get_or_empty user_email)
      else (if truthy user_email
            then (False \<or> lower (get_or_empty creator_email) = lower (get_or_empty user_email))
            else False))"

section \<open>Outcomes of calls that may raise\<close>

text \<open>
  A call into a library or a remote service either returns a value or raises; the string
  is the text of the exception (\<open>str(error)\<close>), which the source inspects.
\<close>

datatype 'a outcome = Raised string | Returned 'a

section \<open>Dates and times\<close>

text \<open>
  A Python \<open>datetime\<close>. \<open>dt_tz\<close> is \<open>None\<close> for a naive value. The only zone the
  source attaches itself is Asia/Kolkata; a parser may return a value that carries some
  other zone.
\<close>

datatype tzinfo = AsiaKolkata | OtherZone

record pydatetime =
  dt_year :: nat
  dt_month :: nat
  dt_day :: nat
  dt_hour :: nat
  dt_minute :: nat
  dt_second :: nat
  dt_micro :: nat
  dt_tz :: "tzinfo option"

definition valid_datetime :: "pydatetime \<Rightarrow> bool" where
  "valid_datetime d =
     (1 \<le> dt_year d \<and> dt_year d \<le> 9999 \<and> 1 \<le> dt_month d \<and> dt_month d \<le> 12 \<and>
      1 \<le> dt_day d \<and> dt_day d \<le> 31 \<and> dt_hour d \<le> 23 \<and> dt_minute d \<le> 59 \<and>
      dt_second d \<le> 59)"

text \<open>\<open>d.date()\<close>, and the order of dates.\<close>

definition date_of :: "pydatetime \<Rightarrow> nat \<times> nat \<times> nat" where
  "date_of d = (dt_year d, dt_month d, dt_day d)"

fun date_le :: "nat \<times> nat \<times> nat \<Rightarrow> nat \<times> nat \<times> nat \<Rightarrow> bool" where
  "date_le (y1, m1, d1) (y2, m2, d2) =
     (y1 < y2 \<or> (y1 = y2 \<and> (m1 < m2 \<or> (m1 = m2 \<and> d1 \<le> d2))))"

definition digit_char :: "nat \<Rightarrow> char" where
  "digit_char n = ''0123456789'' ! (n mod 10)"

definition pad2 :: "nat \<Rightarrow> string" where
  "pad2 n = [digit_char (n div 10), digit_char n]"

definition pad4 :: "nat \<Rightarrow> string" where
  "pad4 n = [digit_char (n div 1000), digit_char (n div 100), digit_char (n div 10), digit_char n]"

text \<open>
  \<open>d.strftime('%Y-%m-%d')\<close> and \<open>str(d.date())\<close>. Both give four digits for the year
  from the year 1000 on, where every date that is not before today lies.
\<close>

definition strftime_Ymd :: "pydatetime \<Rightarrow> string" where
  "strftime_Ymd d = pad4 (dt_year d) @ ''-'' @ pad2 (dt_month d) @ ''-'' @ pad2 (dt_day d)"

text \<open>\<open>d.strftime('%I:%M %p')\<close>: the twelve-hour clock.\<close>

definition strftime_IMp :: "pydatetime \<Rightarrow> string" where
  "strftime_IMp d =
     pad2 (if dt_hour d mod 12 = 0 then 12 else dt_hour d mod 12) @ '':'' @
     pad2 (dt_minute d) @ '' '' @ (if dt_hour d < 12 then ''AM'' else ''PM'')"

definition is_leap :: "nat \<Rightarrow> bool" where
  "is_leap y = (y mod 4 = 0 \<and> (y mod 100 \<noteq> 0 \<or> y mod 400 = 0))"

definition days_in_month :: "nat \<Rightarrow> nat \<Rightarrow> nat" where
  "days_in_month y m =
     (if m = 2 then (if is_leap y then 29 else 28)
      else if m = 4 \<or> m = 6 \<or> m = 9 \<or> m = 11 then 30 else 31)"

text \<open>
  \<open>d + timedelta(days=1)\<close> and \<open>d + timedelta(hours=1)\<close>. Past the last day of the
  year 9999 Python raises OverflowError.
\<close>

definition plus_one_day :: "pydatetime \<Rightarrow> pydatetime outcome" where
  "plus_one_day d =
     (if dt_day d < days_in_month (dt_year d) (dt_month d)
      then Returned (d\<lparr>dt_day := dt_day d + 1\<rparr>)
      else if dt_month d < 12
      then Returned (d\<lparr>dt_month := dt_month d + 1, dt_day := 1\<rparr>)
      else if dt_year d < 9999
      then Returned (d\<lparr>dt_year := dt_year d + 1, dt_month := 1, dt_day := 1\<rparr>)
      else Raised ''date value out of range'')"

definition plus_one_hour :: "pydatetime \<Rightarrow> pydatetime outcome" where
  "plus_one_hour d =
     (if dt_hour d < 23 then Returned (d\<lparr>dt_hour := dt_hour d + 1\<rparr>)
      else plus_one_day (d\<lparr>dt_hour := 0\<rparr>))"

text \<open>\<open>d.replace(hour=10, minute=0, second=0, microsecond=0)\<close>.\<close>

definition at_ten :: "pydatetime \<Rightarrow> pydatetime" where
  "at_ten d = d\<lparr>dt_hour := 10, dt_minute := 0, dt_second := 0, dt_micro := 0\<rparr>"

text \<open>
  The source strips any zone (\<open>replace(tzinfo=None)\<close> when one is set) and then calls
  \<open>local_tz.localize\<close> of pytz, which raises ValueError on a value that still has one.
\<close>

definition strip_tz :: "pydatetime \<Rightarrow> pydatetime" where
  "strip_tz d = (if dt_tz d \<noteq> None then d\<lparr>dt_tz := None\<rparr> else d)"

definition localize :: "pydatetime \<Rightarrow> pydatetime outcome" where
  "localize d =
     (if dt_tz d \<noteq> None then Raised ''Not naive datetime (tzinfo is already set)''
      else Returned (d\<lparr>dt_tz := Some AsiaKolkata\<rparr>))"

text \<open>
  The date parser (\<open>dateparser.parse\<close>) is a library: it is a parameter of everything
  below. It returns a datetime, or \<open>None\<close> for text it cannot read, or raises.
\<close>

type_synonym parser = "string \<Rightarrow> pydatetime option outcome"

section \<open>Validation and extraction of one field (app.py and calenderinternal.py)\<close>

text \<open>
  \<open>validate_email\<close> is \<open>re.match\<close> with the pattern
  \<^verbatim>\<open>^[a-zA-Z0-9._%+-]+@[a-zA-Z0-9.-]+\.[a-zA-Z]{2,}$\<close>.
  Neither class contains the at sign, so the local part ends at the first one; the last
  class contains no dot, so the top-level label starts after the last one. \<open>$\<close> also
  matches before a line feed that ends the string.
\<close>

definition local_char :: "char \<Rightarrow> bool" where
  "local_char c = (is_letter c \<or> is_digit c \<or> c \<in> set ''._%+-'')"

definition domain_char :: "char \<Rightarrow> bool" where
  "domain_char c = (is_letter c \<or> is_digit c \<or> c \<in> set ''.-'')"

definition email_body :: "string \<Rightarrow> bool" where
  "email_body t =
     (let local_part = takeWhile (\<lambda>c. c \<noteq> CHR ''@'') t;
          after = dropWhile (\<lambda>c. c \<noteq> CHR ''@'') t;
          dom_tld = tl after;
          tld = rev (takeWhile (\<lambda>c. c \<noteq> CHR ''.'') (rev dom_tld));
          dom = take (length dom_tld - length tld - 1) dom_tld
      in local_part \<noteq> [] \<and> list_all local_char local_part \<and> after \<noteq> [] \<and>
         length tld < length dom_tld \<and> dom \<noteq> [] \<and> list_all domain_char dom \<and>
         2 \<le> length tld \<and> list_all is_letter tld)"

definition validate_email :: "string \<Rightarrow> bool" where
  "validate_email email =
     (email_body email \<or>
      (email \<noteq> [] \<and> last email = CHR 0x0A \<and> email_body (butlast email)))"

text \<open>
  The time pattern of \<open>extract_event_details\<close>, searched with IGNORECASE:
  \<^verbatim>\<open>(\d{1,2}(?::\d{2})?\s*(?:am|pm)?)\s*(?:to|-)?\s*(\d{1,2}(?::\d{2})?\s*(?:am|pm)?)?\<close>
  After the first digit every part is optional, so the match never fails and each greedy
  part takes what it can. Each function below returns what is left of the text after one
  part.
\<close>

definition skip_digits12 :: "string \<Rightarrow> string" where
  "skip_digits12 s =
     (case s of
        a # b # r \<Rightarrow> (if is_digit a then (if is_digit b then r else b # r) else s)
      | [a] \<Rightarrow> (if is_digit a then [] else s)
      | [] \<Rightarrow> [])"

definition skip_colon_minutes :: "string \<Rightarrow> string" where
  "skip_colon_minutes s =
     (case s of
        a # b # c # r \<Rightarrow> (if a = CHR '':'' \<and> is_digit b \<and> is_digit c then r else s)
      | _ \<Rightarrow> s)"

definition skip_spaces :: "string \<Rightarrow> string" where
  "skip_spaces s = dropWhile is_space s"

definition skip_ampm :: "string \<Rightarrow> string" where
  "skip_ampm s =
     (if lower (take 2 s) = ''am'' \<or> lower (take 2 s) = ''pm'' then drop 2 s else s)"

definition skip_to_or_dash :: "string \<Rightarrow> string" where
  "skip_to_or_dash s =
     (if lower (take 2 s) = ''to'' then drop 2 s
      else if take 1 s = ''-'' then drop 1 s else s)"

definition skip_clock :: "string \<Rightarrow> string" where
  "skip_clock s = skip_ampm (skip_spaces (skip_colon_minutes (skip_digits12 s)))"

definition skip_time_pattern :: "string \<Rightarrow> string" where
  "skip_time_pattern s =
     (let r = skip_spaces (skip_to_or_dash (skip_spaces (skip_clock s)))
      in case r of [] \<Rightarrow> [] | c # _ \<Rightarrow> (if is_digit c then skip_clock r else r))"

text \<open>
  \<open>time_match.group(0).strip()\<close> when the search finds a match, which it does at the
  first digit of the text.
\<close>

definition extract_event_time :: "string \<Rightarrow> string option" where
  "extract_event_time text =
     (let s = dropWhile (\<lambda>c. \<not> is_digit c) text
      in if s = [] then None
         else Some (strip (take (length s - length (skip_time_pattern s)) s)))"

text \<open>
  The date check that chat_route (for \<open>event_date\<close>) and process_update_field_input
  (for \<open>new_date\<close>) both make on the text of the turn:
  \<^verbatim>\<open>
  parsed = dateparser.parse(user_input, settings={'PREFER_DATES_FROM': 'future'})
  if parsed and parsed.date() >= datetime.now().date():
      data[field] = parsed.strftime('%Y-%m-%d')
  \<close>
  The result is the string that is stored, or \<open>None\<close> when the text is rejected.
\<close>

definition accept_date :: "parser \<Rightarrow> pydatetime \<Rightarrow> string \<Rightarrow> string option outcome" where
  "accept_date parse_future now user_input =
     (case parse_future user_input of
        Raised e \<Rightarrow> Raised e
      | Returned None \<Rightarrow> Returned None
      | Returned (Some parsed) \<Rightarrow>
          (if date_le (date_of now) (date_of parsed) then Returned (Some (strftime_Ymd parsed))
           else Returned None))"

section \<open>parse_datetime (calenderinternal.py)\<close>

text \<open>
  \<open>re.split(r'\s+(?:to|-|till)\s+', time_str)\<close>. \<open>separator_length s\<close> is the length
  of a separator that starts at the head of \<open>s\<close>: the leading run of white space cannot
  be shortened (the word after it does not start with white space), and the run after
  the word is taken whole.
\<close>

definition separator_length :: "string \<Rightarrow> nat option" where
  "separator_length s =
     (let a = dropWhile is_space s;
          after_word =
            (if startswith a ''to'' \<and> drop 2 a \<noteq> [] \<and> is_space (hd (drop 2 a))
             then Some (drop 2 a)
             else if startswith a ''-'' \<and> drop 1 a \<noteq> [] \<and> is_space (hd (drop 1 a))
             then Some (drop 1 a)
             else if startswith a ''till'' \<and> drop 4 a \<noteq> [] \<and> is_space (hd (drop 4 a))
             then Some (drop 4 a)
             else None)
      in if length a = length s then None
         else case after_word of
                None \<Rightarrow> None
              | Some b \<Rightarrow> Some (length s - length (dropWhile is_space b)))"

text \<open>
  The scan of \<open>re.split\<close>: \<open>skip\<close> counts the characters of a separator still to be
  passed over, \<open>cur\<close> is the piece being collected, reversed.
\<close>

fun split_scan :: "nat \<Rightarrow> string \<Rightarrow> string \<Rightarrow> string list" where
  "split_scan skip cur [] = [rev cur]"
| "split_scan (Suc k) cur (c # cs) = split_scan k cur cs"
| "split_scan 0 cur (c # cs) =
     (case separator_length (c # cs) of
        Some n \<Rightarrow> rev cur # split_scan (n - 1) [] cs
      | None \<Rightarrow> split_scan 0 (c # cur) cs)"

definition split_time_range :: "string \<Rightarrow> string list" where
  "split_time_range s = split_scan 0 [] s"

text \<open>
  The natural-language words, tried in the order of the dict; the first one that occurs
  in the text replaces the whole text.
\<close>

definition natural_time :: "string \<Rightarrow> string" where
  "natural_time time_str =
     (if contains time_str ''morning'' then ''9:00 AM to 10:00 AM''
      else if contains time_str ''afternoon'' then ''2:00 PM to 3:00 PM''
      else if contains time_str ''evening'' then ''6:00 PM to 7:00 PM''
      else if contains time_str ''noon'' then ''12:00 PM to 1:00 PM''
      else time_str)"

text \<open>
  The body of the \<open>try\<close> block of parse_datetime. \<open>parse_future\<close> is
  \<open>dateparser.parse\<close> with \<open>PREFER_DATES_FROM: future\<close>, \<open>parse_plain\<close> is
  \<open>dateparser.parse\<close> without settings, \<open>now\<close> is \<open>datetime.now()\<close>.
\<close>

definition parse_datetime_try ::
  "parser \<Rightarrow> parser \<Rightarrow> pydatetime \<Rightarrow> string \<Rightarrow> string \<Rightarrow> (pydatetime \<times> pydatetime) outcome" where
  "parse_datetime_try parse_future parse_plain now date_str time_str =
     (case parse_future date_str of
        Raised e \<Rightarrow> Raised e
      | Returned parsed0 \<Rightarrow>
     (case (case parsed0 of None \<Rightarrow> plus_one_day now | Some d \<Rightarrow> Returned d) of
        Raised e \<Rightarrow> Raised e
      | Returned parsed_date \<Rightarrow>
     (let time_parts = split_time_range (natural_time (strip (lower time_str)));
          day = strftime_Ymd parsed_date;
          start_time_str = strip (hd time_parts)
      in
     (case (if 2 \<le> length time_parts then Returned (strip (time_parts ! 1))
            else (case parse_plain (day @ '' '' @ start_time_str) of
                    Raised e \<Rightarrow> Raised e
                  | Returned None \<Rightarrow> Returned (strip (hd time_parts))
                  | Returned (Some start_time) \<Rightarrow>
                      (case plus_one_hour start_time of
                         Raised e \<Rightarrow> Raised e
                       | Returned end_time \<Rightarrow> Returned (strftime_IMp end_time)))) of
        Raised e \<Rightarrow> Raised e
      | Returned end_time_str \<Rightarrow>
     (case parse_plain (day @ '' '' @ start_time_str) of
        Raised e \<Rightarrow> Raised e
      | Returned start0 \<Rightarrow>
     (let start_time = (case start0 of None \<Rightarrow> at_ten parsed_date | Some t \<Rightarrow> t)
      in
     (case parse_plain (day @ '' '' @ end_time_str) of
        Raised e \<Rightarrow> Raised e
      | Returned end0 \<Rightarrow>
     (case (case end0 of None \<Rightarrow> plus_one_hour start_time | Some t \<Rightarrow> Returned t) of
        Raised e \<Rightarrow> Raised e
      | Returned end_time \<Rightarrow>
     (case localize (strip_tz start_time) of
        Raised e \<Rightarrow> Raised e
      | Returned start_local \<Rightarrow>
     (case localize (strip_tz end_time) of
        Raised e \<Rightarrow> Raised e
      | Returned end_local \<Rightarrow> Returned (start_local, end_local)))))))))))"

text \<open>The \<open>except\<close> block: tomorrow from ten to eleven.\<close>

definition parse_datetime_except :: "pydatetime \<Rightarrow> (pydatetime \<times> pydatetime) outcome" where
  "parse_datetime_except now =
     (case plus_one_day now of
        Raised e \<Rightarrow> Raised e
      | Returned tomorrow \<Rightarrow>
     (case plus_one_hour (at_ten tomorrow) of
        Raised e \<Rightarrow> Raised e
      | Returned end_time \<Rightarrow>
     (case localize (at_ten tomorrow) of
        Raised e \<Rightarrow> Raised e
      | Returned start_local \<Rightarrow>
     (case localize end_time of
        Raised e \<Rightarrow> Raised e
      | Returned end_local \<Rightarrow> Returned (start_local, end_local)))))"

definition parse_datetime ::
  "parser \<Rightarrow> parser \<Rightarrow> pydatetime \<Rightarrow> string \<Rightarrow> string \<Rightarrow> (pydatetime \<times> pydatetime) outcome" where
  "parse_datetime parse_future parse_plain now date_str time_str =
     (case parse_datetime_try parse_future parse_plain now date_str time_str of
        Returned r \<Rightarrow> Returned r
      | Raised e \<Rightarrow> parse_datetime_except now)"

section \<open>Searching the calendar (calenderinternal.py)\<close>

text \<open>\<open>s.split()\<close>: the maximal runs of characters that are not white space.\<close>

fun split_words :: "string \<Rightarrow> string \<Rightarrow> string list" where
  "split_words cur [] = (if cur = [] then [] else [rev cur])"
| "split_words cur (c # cs) =
     (if is_space c then (if cur = [] then split_words [] cs else rev cur # split_words [] cs)
      else split_words (c # cur) cs)"

definition py_split :: "string \<Rightarrow> string list" where
  "py_split s = split_words [] s"

definition summary_of :: "event \<Rightarrow> string" where
  "summary_of e = get_or_empty (ev_summary e)"

text \<open>The truth value of \<open>e.get('attendees')\<close>: the list is there and not empty.\<close>

definition has_attendees :: "event \<Rightarrow> bool" where
  "has_attendees e = (case ev_attendees e of None \<Rightarrow> False | Some as \<Rightarrow> as \<noteq> [])"

text \<open>The four search strategies of get_event_by_name, in their order.\<close>

definition search_strategies :: "(event \<Rightarrow> string \<Rightarrow> bool) list" where
  "search_strategies =
     [\<lambda>e name. lower (summary_of e) = lower name,
      \<lambda>e name. contains (lower (summary_of e)) (lower name),
      \<lambda>e name. contains (lower name) (lower (summary_of e)),
      \<lambda>e name. list_ex (\<lambda>word. contains (lower (summary_of e)) (lower word))
                   (filter (\<lambda>word. 2 < length word) (py_split name))]"

fun try_strategies :: "(event \<Rightarrow> string \<Rightarrow> bool) list \<Rightarrow> event list \<Rightarrow> string \<Rightarrow> event option" where
  "try_strategies [] events event_name = None"
| "try_strategies (strategy # rest) events event_name =
     (case filter (\<lambda>e. strategy e event_name) events of
        [] \<Rightarrow> try_strategies rest events event_name
      | m # ms \<Rightarrow>
          (case filter has_attendees (m # ms) of
             [] \<Rightarrow> Some m
           | w # ws \<Rightarrow> Some w))"

text \<open>
  get_event_by_name: \<open>listing\<close> is the outcome of the \<open>events().list\<close> call; when the
  call raises, the function prints the error and returns \<open>None\<close>.
\<close>

definition get_event_by_name :: "event list outcome \<Rightarrow> string \<Rightarrow> event option" where
  "get_event_by_name listing event_name =
     (case listing of
        Raised e \<Rightarrow> None
      | Returned events \<Rightarrow> try_strategies search_strategies events event_name)"

text \<open>
  The suggestions are Python dicts with the keys \<open>name\<close>, \<open>date\<close> and
  \<open>overlap_score\<close>. \<open>d[k]\<close> raises KeyError for a key that is not there, and the text
  of a KeyError is the key in quotes.
\<close>

datatype pyval = PyStr string | PyInt int | PyNone

type_synonym pydict = "(string \<times> pyval) list"

definition key_error :: "string \<Rightarrow> string" where
  "key_error k = [CHR 0x27] @ k @ [CHR 0x27]"

definition dict_item :: "pydict \<Rightarrow> string \<Rightarrow> pyval outcome" where
  "dict_item d k = (case map_of d k of None \<Rightarrow> Raised (key_error k) | Some v \<Rightarrow> Returned v)"

text \<open>A list comprehension whose element expression may raise stops at the first raise.\<close>

fun collect :: "'a outcome list \<Rightarrow> 'a list outcome" where
  "collect [] = Returned []"
| "collect (Raised e # rest) = Raised e"
| "collect (Returned v # rest) =
     (case collect rest of Raised e \<Rightarrow> Raised e | Returned vs \<Rightarrow> Returned (v # vs))"

text \<open>\<open>len(event_name_words.intersection(summary_words))\<close> on the two sets of words.\<close>

definition word_overlap :: "string \<Rightarrow> string \<Rightarrow> nat" where
  "word_overlap event_name summary =
     length (remdups (filter (\<lambda>w. w \<in> set (py_split (lower summary)))
                             (py_split (lower event_name))))"

definition overlap_score :: "pydict \<Rightarrow> int" where
  "overlap_score d = (case map_of d ''overlap_score'' of Some (PyInt n) \<Rightarrow> n | _ \<Rightarrow> 0)"

definition suggestion_of :: "string \<Rightarrow> event \<Rightarrow> pydict" where
  "suggestion_of event_name e =
     [(''name'', PyStr (summary_of e)),
      (''date'', (case start_text e of None \<Rightarrow> PyNone | Some d \<Rightarrow> PyStr d)),
      (''overlap_score'', PyInt (int (word_overlap event_name (summary_of e))))]"

text \<open>
  suggest_similar_events: the events with a summary that shares a word with the name,
  sorted by the number of shared words, largest first (Python's sort is stable, also with
  \<open>reverse=True\<close>), and cut to three. The suggestion of an event reads
  \<open>event['start']\<close>: for an event without that key this raises KeyError, and the
  handler of the function returns the empty list, as it does when the listing raises.
\<close>

definition suggest_similar_events :: "event list outcome \<Rightarrow> string \<Rightarrow> pydict list" where
  "suggest_similar_events listing event_name =
     (case listing of
        Raised e \<Rightarrow> []
      | Returned events \<Rightarrow>
          (let similar =
                 filter (\<lambda>e. summary_of e \<noteq> [] \<and> 0 < word_overlap event_name (summary_of e))
                   events
           in if list_ex (\<lambda>e. ev_start e = None) similar then []
              else take 3 (sort_key (\<lambda>d. - overlap_score d)
                             (map (suggestion_of event_name) similar))))"

text \<open>
  check_participant_calendar_conflicts: \<open>listing\<close> is the outcome of listing the
  primary calendar between the two instants; a raise counts as no conflict.
\<close>

definition check_participant_calendar_conflicts :: "event list outcome \<Rightarrow> string \<Rightarrow> bool" where
  "check_participant_calendar_conflicts listing participant_email =
     (case listing of
        Raised e \<Rightarrow> False
      | Returned events \<Rightarrow>
          list_ex (\<lambda>e. case ev_attendees e of
                         None \<Rightarrow> False
                       | Some attendees \<Rightarrow>
                           lower participant_email \<in> set (map (\<lambda>a. lower (get_or_empty a)) attendees))
                  events)"

section \<open>The services the assistant calls\<close>

text \<open>
  The calendar, the mail service, the clock, the date parser and the regular-expression
  cascades of the extractors are parameters: one field for each place where the source
  calls out. A listing is the outcome of one \<open>events().list(...).execute()\<close>; a send is
  the boolean that the sending helper returns (it catches every exception itself).
\<close>

record calendar_api =
  cal_conflict_listing :: "pydatetime \<Rightarrow> pydatetime \<Rightarrow> event list outcome"
  cal_search_listing :: "event list outcome"
  cal_suggest_listing :: "event list outcome"
  cal_recent_listing :: "event list outcome"
  cal_upcoming_listing :: "event list outcome"
  cal_insert :: "string \<Rightarrow> pydatetime \<Rightarrow> pydatetime \<Rightarrow> string \<Rightarrow> (string option \<times> string) outcome"
  cal_update :: "string \<Rightarrow> unit outcome"
  cal_delete :: "string \<Rightarrow> unit outcome"
  cal_get_status :: "string \<Rightarrow> string option outcome"

record mail_api =
  mail_conflict :: "string \<Rightarrow> bool"
  mail_cancel :: "string \<Rightarrow> bool"
  mail_reschedule :: "string \<Rightarrow> bool"

text \<open>What the assistant does to the outside world, in the order in which it does it.\<close>

datatype effect =
    MailConflict string string
  | MailCancel string string
  | MailReschedule string string
  | CalendarInsert string string
  | CalendarUpdate string
  | CalendarDelete string

definition is_mutation :: "effect \<Rightarrow> bool" where
  "is_mutation fx =
     (case fx of CalendarInsert _ _ \<Rightarrow> True | CalendarUpdate _ \<Rightarrow> True
               | CalendarDelete _ \<Rightarrow> True | _ \<Rightarrow> False)"

text \<open>An entry of \<open>session['scheduled_meetings']\<close> (the generated id and time stamp left out).\<close>

record meeting =
  m_participant_email :: string
  m_event_name :: string
  m_event_date :: string
  m_event_time :: string
  m_meeting_link :: string
  m_calendar_event_id :: "string option"

text \<open>The second component of the pairs that the two executors of app.py return.\<close>

datatype message =
    NotFound string
  | NotFoundSimilar string "string list"
  | NotFoundDidYouMean string "string list"
  | UnexpectedDeletionError string
  | UnexpectedUpdateError string
  | InvalidDateTimeFormat string
  | ConflictsDetected
  | DeletionIncomplete
  | DeletedOk string bool
  | AlreadyDeleted string
  | DeletePermissionDenied
  | UpdatePermissionDenied
  | AuthenticationError
  | DeleteFailed string
  | UpdatedOk string string string bool
  | NoLongerExists string
  | UpdateFailed string

text \<open>
  The attendees that the loops of app.py write to: those with an address that differs
  from the user's, compared in lower case. The loops run only \<open>if attendees and
  user_email\<close>.
\<close>

definition other_attendees :: "string option list option \<Rightarrow> string option \<Rightarrow> string list" where
  "other_attendees attendees user_email =
     (case attendees of
        None \<Rightarrow> []
      | Some as \<Rightarrow>
          (if truthy user_email
           then filter (\<lambda>a. a \<noteq> [] \<and> lower a \<noteq> lower (get_or_empty user_email))
                  (map get_or_empty as)
           else []))"

text \<open>\<open>s['summary'] for s in suggestions\<close>, as both executors of app.py write it.\<close>

definition suggestion_summaries :: "pydict list \<Rightarrow> string list outcome" where
  "suggestion_summaries suggestions =
     (case collect (map (\<lambda>s. dict_item s ''summary'') suggestions) of
        Raised e \<Rightarrow> Raised e
      | Returned vs \<Rightarrow> Returned (map (\<lambda>v. case v of PyStr t \<Rightarrow> t | _ \<Rightarrow> []) vs))"

section \<open>delete_event_with_sync (app.py)\<close>

text \<open>
  The result is the pair \<open>(success, message)\<close>, the effects, and the new value of
  \<open>session['scheduled_meetings']\<close>. Every exception inside is caught by the function's
  own handler, which returns \<open>(False, "Unexpected error during deletion: ...")\<close>.
\<close>

definition delete_event_with_sync ::
  "calendar_api \<Rightarrow> mail_api \<Rightarrow> string option \<Rightarrow> meeting list option \<Rightarrow> string \<Rightarrow>
     (bool \<times> message) \<times> effect list \<times> meeting list option" where
  "delete_event_with_sync cal mail user_email scheduled event_name =
     (case get_event_by_name (cal_search_listing cal) event_name of
        None \<Rightarrow>
          (let suggestions = suggest_similar_events (cal_suggest_listing cal) event_name
           in if suggestions \<noteq> []
              then (case suggestion_summaries suggestions of
                      Raised e \<Rightarrow> ((False, UnexpectedDeletionError e), [], scheduled)
                    | Returned names \<Rightarrow>
                        ((False, NotFoundSimilar event_name (take 3 names)), [], scheduled))
              else ((False, NotFound event_name), [], scheduled))
      | Some event \<Rightarrow>
          (let event_id = ev_id event;
               event_summary = (case ev_summary event of None \<Rightarrow> event_name | Some t \<Rightarrow> t);
               recipients = other_attendees (ev_attendees event) user_email;
               mails = map (\<lambda>a. MailCancel a event_summary) recipients;
               notification_sent = list_ex (mail_cancel mail) recipients
           in case cal_delete cal event_id of
                Returned u \<Rightarrow>
                  (case cal_get_status cal event_id of
                     Returned status \<Rightarrow>
                       (if status \<noteq> Some ''cancelled''
                        then ((False, DeletionIncomplete), mails @ [CalendarDelete event_id], scheduled)
                        else ((True, DeletedOk event_summary notification_sent),
                              mails @ [CalendarDelete event_id],
                              map_option (filter (\<lambda>m. m_calendar_event_id m \<noteq> Some event_id)) scheduled))
                   | Raised e \<Rightarrow>
                       ((True, DeletedOk event_summary notification_sent),
                        mails @ [CalendarDelete event_id],
                        map_option (filter (\<lambda>m. m_calendar_event_id m \<noteq> Some event_id)) scheduled))
              | Raised error_msg \<Rightarrow>
                  ((False,
                    (if contains error_msg ''404'' then AlreadyDeleted event_name
                     else if contains error_msg ''403'' then DeletePermissionDenied
                     else if contains error_msg ''401'' then AuthenticationError
                     else DeleteFailed error_msg)),
                   mails @ [CalendarDelete event_id], scheduled)))"

section \<open>delete_event (calenderinternal.py)\<close>

text \<open>
  The older deletion routine, which the \<open>/api/chat\<close> route of calenderinternal.py
  calls. It returns a boolean. Its user address comes from the get_authenticated_user_email
  of its own module, which always returns a string.
\<close>

definition delete_event ::
  "calendar_api \<Rightarrow> mail_api \<Rightarrow> string \<Rightarrow> meeting list option \<Rightarrow> string \<Rightarrow>
     bool \<times> effect list \<times> meeting list option" where
  "delete_event cal mail user_email scheduled event_name =
     (case get_event_by_name (cal_search_listing cal) event_name of
        None \<Rightarrow> (False, [], scheduled)
      | Some event \<Rightarrow>
          (let event_id = ev_id event;
               event_title = (case ev_summary event of None \<Rightarrow> ''Untitled Event'' | Some t \<Rightarrow> t);
               recipients =
                 filter (\<lambda>a. a \<noteq> [] \<and> lower a \<noteq> lower user_email)
                   (map get_or_empty (case ev_attendees event of None \<Rightarrow> [] | Some as \<Rightarrow> as));
               mails = map (\<lambda>a. MailCancel a event_title) recipients
           in case cal_delete cal event_id of
                Returned u \<Rightarrow>
                  (True, mails @ [CalendarDelete event_id],
                   map_option
                     (filter (\<lambda>m. m_calendar_event_id m \<noteq> Some event_id \<and>
                                   lower (m_event_name m) \<noteq> lower event_name))
                     scheduled)
              | Raised error_str \<Rightarrow>
                  (if contains error_str ''404'' then (True, mails @ [CalendarDelete event_id], scheduled)
                   else if contains error_str ''403'' \<or> contains (lower error_str) ''forbidden''
                   then (False, mails @ [CalendarDelete event_id], scheduled)
                   else (False, mails @ [CalendarDelete event_id], scheduled))))"

section \<open>update_event_with_sync (app.py)\<close>

text \<open>
  The loop over \<open>session['scheduled_meetings']\<close> that rewrites the first entry of the
  event and stops.
\<close>

fun reschedule_first :: "string \<Rightarrow> string \<Rightarrow> string \<Rightarrow> meeting list \<Rightarrow> meeting list" where
  "reschedule_first event_id new_date new_time [] = []"
| "reschedule_first event_id new_date new_time (m # ms) =
     (if m_calendar_event_id m = Some event_id
      then m\<lparr>m_event_date := new_date, m_event_time := new_time\<rparr> # ms
      else m # reschedule_first event_id new_date new_time ms)"

text \<open>
  An effect is recorded when the call is made, whether the service then succeeds or not.
  The read that verifies the update afterwards only prints, and is left out.
\<close>

definition update_event_with_sync ::
  "calendar_api \<Rightarrow> mail_api \<Rightarrow> parser \<Rightarrow> parser \<Rightarrow> pydatetime \<Rightarrow> string option \<Rightarrow>
     meeting list option \<Rightarrow> string \<Rightarrow> string \<Rightarrow> string \<Rightarrow>
     (bool \<times> message) \<times> effect list \<times> meeting list option" where
  "update_event_with_sync cal mail parse_future parse_plain now user_email scheduled
       event_name new_date new_time =
     (case get_event_by_name (cal_search_listing cal) event_name of
        None \<Rightarrow>
          (let suggestions = suggest_similar_events (cal_suggest_listing cal) event_name
           in if suggestions \<noteq> []
              then (case suggestion_summaries (take 3 suggestions) of
                      Raised e \<Rightarrow> ((False, UnexpectedUpdateError e), [], scheduled)
                    | Returned names \<Rightarrow>
                        ((False, NotFoundDidYouMean event_name names), [], scheduled))
              else ((False, NotFound event_name), [], scheduled))
      | Some event \<Rightarrow>
     (case parse_datetime parse_future parse_plain now new_date new_time of
        Raised e \<Rightarrow> ((False, InvalidDateTimeFormat e), [], scheduled)
      | Returned (new_start_time, new_end_time) \<Rightarrow>
          (let event_id = ev_id event;
               event_summary = (case ev_summary event of None \<Rightarrow> event_name | Some t \<Rightarrow> t);
               others = other_attendees (ev_attendees event) user_email;
               conflicted =
                 filter (check_participant_calendar_conflicts
                           (cal_conflict_listing cal new_start_time new_end_time)) others;
               conflict_mails = map (\<lambda>a. MailConflict a event_summary) conflicted
           in if conflicted \<noteq> []
              then ((False, ConflictsDetected), conflict_mails, scheduled)
              else
                (let mails = map (\<lambda>a. MailReschedule a event_summary) others;
                     notification_sent = list_ex (mail_reschedule mail) others
                 in case cal_update cal event_id of
                      Returned u \<Rightarrow>
                        ((True, UpdatedOk event_summary new_date new_time notification_sent),
                         mails @ [CalendarUpdate event_id],
                         map_option (reschedule_first event_id new_date new_time) scheduled)
                    | Raised error_msg \<Rightarrow>
                        ((False,
                          (if contains error_msg ''404'' then NoLongerExists event_name
                           else if contains error_msg ''403'' then UpdatePermissionDenied
                           else if contains error_msg ''401'' then AuthenticationError
                           else UpdateFailed error_msg)),
                         mails @ [CalendarUpdate event_id], scheduled)))))"

section \<open>The conversation session and the environment of a turn\<close>

text \<open>
  The intent is one of the strings \<open>schedule\<close>, \<open>update\<close>, \<open>delete\<close>; the keys of
  \<open>session['data']\<close> are the six field names. A value of the field record may be
  Python's \<open>None\<close> (the update flow stores what \<open>dict.get\<close> returns).
\<close>

datatype intent = Schedule | Update | Delete

datatype field = ParticipantEmail | EventName | EventDate | EventTime | NewDate | NewTime

type_synonym field_record = "field \<rightharpoonup> string option"

record deletable =
  d_name :: string
  d_formatted_date :: string
  d_id :: string
  d_has_attendees :: bool

text \<open>
  The Flask session: one optional entry for each key that chat_route reads or writes.
  An email is represented by its subject line. \<open>s_other\<close> lists the keys that only
  other routes write (\<open>last_calendar_refresh\<close>, \<open>calendar_meetings\<close>);
  \<open>session.clear()\<close> removes them too.
\<close>

record session =
  s_data :: "field_record option"
  s_messages :: "string list option"
  s_intent :: "intent option"
  s_waiting_for :: "field option"
  s_update_text :: "string option"
  s_delete_text :: "string option"
  s_deletable_events :: "deletable list option"
  s_processed_emails :: "string list option"
  s_meeting_requests :: "string list option"
  s_scheduled_meetings :: "meeting list option"
  s_other :: "string list"

definition empty_session :: session where
  "empty_session =
     \<lparr>s_data = None, s_messages = None, s_intent = None, s_waiting_for = None,
      s_update_text = None, s_delete_text = None, s_deletable_events = None,
      s_processed_emails = None, s_meeting_requests = None, s_scheduled_meetings = None,
      s_other = []\<rparr>"

text \<open>
  What the email branch of chat_route does, as far as the session sees it: it finds no
  mail, or stores the processed mails and the meeting requests, or raises before or after
  storing them.
\<close>

datatype email_run =
    EmailsNone
  | EmailsSummarised "string list" "string list"
  | EmailsFailed
  | EmailsStoredThenFailed "string list" "string list"

text \<open>
  \<open>e_services\<close> is the global \<open>services\<close>: \<open>None\<close>, or the keys of the dict.
  \<open>e_user_email\<close> is what get_authenticated_user_email of app.py returns.
  \<open>e_match_address\<close> and \<open>e_match_event_name\<close> are the results of the address search and
  of the three name searches of extract_event_details (the text of group 0, of group 1);
  \<open>e_extract_update_details\<close> and \<open>e_extract_delete_details\<close> are the dicts that these
  two cascades of searches return; \<open>e_format_start\<close> is
  \<open>datetime.fromisoformat(...).strftime(...)\<close> on the start of an event;
  \<open>e_meeting_details\<close> is extract_meeting_details_from_email on one email: the
  participant's address, the name, the date and the time of details that are marked
  complete (\<open>has_complete_info\<close>), \<open>None\<close> for any other details, or a raise.
\<close>

record env =
  e_services :: "string list option"
  e_calendar :: calendar_api
  e_mail :: mail_api
  e_user_email :: "string option"
  e_now :: pydatetime
  e_parse_future :: parser
  e_parse_plain :: parser
  e_match_address :: "string \<Rightarrow> string option"
  e_match_event_name :: "string \<Rightarrow> string option"
  e_extract_update_details :: "string \<Rightarrow> (string \<times> string) list"
  e_extract_delete_details :: "string \<Rightarrow> (string \<times> string) list"
  e_email_run :: "string \<Rightarrow> email_run"
  e_meeting_details :: "string \<Rightarrow> (string \<times> string \<times> string \<times> string) option outcome"
  e_format_start :: "string \<Rightarrow> string outcome"

text \<open>\<open>services and k1 in services and k2 in services ...\<close>\<close>

definition services_have :: "env \<Rightarrow> string list \<Rightarrow> bool" where
  "services_have env keys =
     (case e_services env of
        None \<Rightarrow> False
      | Some present \<Rightarrow> present \<noteq> [] \<and> list_all (\<lambda>k. k \<in> set present) keys)"

section \<open>Spelling and intent (calenderinternal.py, app.py)\<close>

text \<open>
  \<open>\w\<close>: the ASCII letters and digits, the underscore, and the code points from 128 on
  that \<open>str.isalnum\<close> accepts.
\<close>

definition is_word_char :: "char \<Rightarrow> bool" where
  "is_word_char c =
     (is_letter c \<or> is_digit c \<or> c = CHR ''_'' \<or>
      c \<in> set [CHR 0xAA, CHR 0xB2, CHR 0xB3, CHR 0xB5, CHR 0xB9, CHR 0xBA, CHR 0xBC, CHR 0xBD,
                 CHR 0xBE] \<or>
      (192 \<le> (of_char c :: nat) \<and> c \<noteq> CHR 0xD7 \<and> c \<noteq> CHR 0xF7))"

text \<open>
  \<open>re.sub(r'\b' + wrong + r'\b', correct, text, flags=re.IGNORECASE)\<close> for a word of
  letters: a match starts where the character before is not a word character and ends
  where the character after is not one. \<open>skip\<close> counts the characters of a replaced
  word still to be passed over; \<open>prev\<close> says whether the character before is a word
  character.
\<close>

fun sub_word :: "string \<Rightarrow> string \<Rightarrow> nat \<Rightarrow> bool \<Rightarrow> string \<Rightarrow> string" where
  "sub_word wrong correct skip prev [] = []"
| "sub_word wrong correct (Suc k) prev (c # cs) = sub_word wrong correct k True cs"
| "sub_word wrong correct 0 prev (c # cs) =
     (if \<not> prev \<and> wrong \<noteq> [] \<and> startswith (lower (c # cs)) wrong \<and>
         (case drop (length wrong) (c # cs) of [] \<Rightarrow> True | d # _ \<Rightarrow> \<not> is_word_char d)
      then correct @ sub_word wrong correct (length wrong - 1) True cs
      else c # sub_word wrong correct 0 (is_word_char c) cs)"

definition corrections :: "(string \<times> string) list" where
  "corrections =
     [(''schdule'', ''schedule''), (''shedule'', ''schedule''), (''schedual'', ''schedule''),
      (''meting'', ''meeting''), (''meating'', ''meeting''), (''tommorow'', ''tomorrow''),
      (''tomorow'', ''tomorrow'')]"

definition correct_schedule_spelling :: "string \<Rightarrow> string" where
  "correct_schedule_spelling text =
     fold (\<lambda>(wrong, correct) t. sub_word wrong correct 0 False t) corrections text"

definition any_keyword :: "string list \<Rightarrow> string \<Rightarrow> bool" where
  "any_keyword keywords message = list_ex (\<lambda>keyword. contains (lower message) keyword) keywords"

definition is_schedule_intent :: "string \<Rightarrow> bool" where
  "is_schedule_intent message =
     any_keyword [''schedule'', ''meet'', ''meeting'', ''appointment'', ''book'', ''plan''] message"

definition is_update_intent :: "string \<Rightarrow> bool" where
  "is_update_intent message =
     any_keyword [''update'', ''change'', ''reschedule'', ''modify'', ''move'', ''shift'',
                  ''postpone'', ''advance'', ''edit'', ''alter''] message"

definition is_delete_intent :: "string \<Rightarrow> bool" where
  "is_delete_intent message = any_keyword [''delete'', ''cancel'', ''remove''] message"

text \<open>
  is_email_processing_intent looks for a keyword in the stripped, lower-cased message;
  the test for an email address that follows returns \<open>False\<close> on both of its paths.
\<close>

definition is_email_processing_intent :: "string \<Rightarrow> bool" where
  "is_email_processing_intent message =
     list_ex (\<lambda>keyword. contains (strip (lower message)) keyword)
       [''check emails'', ''show emails'', ''process emails'', ''email dashboard'',
        ''my emails'', ''recent emails'', ''inbox messages'', ''check my inbox'',
        ''show my inbox'', ''process my emails'', ''fetch emails'', ''get emails'']"

text \<open>
  The block of the \<open>/api/chat\<close> route of calenderinternal.py that determines the
  intent of a session that has none (lines 1305 to 1321): the result is the intent it
  stores, or \<open>None\<close> when it hands the message to the chat model.
\<close>

definition api_chat_intent :: "string \<Rightarrow> intent option" where
  "api_chat_intent user_input =
     (if is_update_intent user_input then Some Update
      else if is_delete_intent user_input then Some Delete
      else if is_schedule_intent user_input then Some Schedule
      else None)"

section \<open>The chat route of app.py\<close>

text \<open>
  The replies of chat_route, one constructor for each text that the route can send; the
  arguments are the values that the text interpolates (the running count of meetings at
  the end of some texts is left out). \<open>ChatText\<close> is an answer of the chat model or one
  of the canned answers; \<open>MeetingRequestsProcessed\<close> carries the answer of
  process_meeting_requests_from_chat; \<open>ActionSucceeded\<close> and \<open>ActionFailed\<close>
  carry the message of an executor.
\<close>

text \<open>
  The answers of process_meeting_requests_from_chat: nothing to process, services not
  available, the counts of scheduled meetings, of conflicts and of errors, or the text
  of an exception that its last handler caught.
\<close>

datatype batch_reply =
    BatchNothing
  | BatchServicesUnavailable
  | BatchDone nat nat nat
  | BatchFailed string

datatype reply =
    PleaseEnterMessage
  | GmailNotAvailable
  | NoEmailsFound
  | EmailSummary
  | EmailProcessingError
  | MeetingRequestsProcessed batch_reply
  | ChatText
  | MissingFieldPrompt field
  | MissingUpdateFieldPrompt field
  | EnterValidFutureDate
  | EnterValidTime
  | UpdateEnterValidFutureDate
  | UpdateEnterValidTimeRange
  | UpdateInvalidInput
  | CalendarOrGmailUnavailable
  | InvalidParticipantEmail
  | ParticipantConflict string
  | ScheduledOk string string string
  | CreateEventFailed
  | ScheduleError string
  | ServicesUnavailable
  | ActionSucceeded message
  | ActionFailed message
  | EnterValidEventName
  | DeletableEvents "deletable list"
  | NoDeletableEvents
  | WhichEventToDelete
  | InvalidEventNumber
  | NotUnderstood
  | ErrorOccurred

definition REQUIRED_FIELDS :: "field list" where
  "REQUIRED_FIELDS = [ParticipantEmail, EventName, EventDate, EventTime]"

definition UPDATE_REQUIRED_FIELDS :: "field list" where
  "UPDATE_REQUIRED_FIELDS = [EventName, NewDate, NewTime]"

text \<open>\<open>field not in current_data or not current_data[field]\<close>\<close>

definition is_missing :: "field_record \<Rightarrow> field \<Rightarrow> bool" where
  "is_missing current_data f = (case current_data f of None \<Rightarrow> True | Some v \<Rightarrow> \<not> truthy v)"

text \<open>The field of the prompt that get_missing_field_prompt returns, if any.\<close>

definition get_missing_field_prompt :: "field_record \<Rightarrow> field option" where
  "get_missing_field_prompt current_data = find (is_missing current_data) REQUIRED_FIELDS"

definition get_missing_update_field_prompt :: "field_record \<Rightarrow> field option" where
  "get_missing_update_field_prompt current_data =
     find (is_missing current_data) UPDATE_REQUIRED_FIELDS"

text \<open>\<open>d.get(k)\<close>, and \<open>d[k]\<close> for a key that the caller has just found present.\<close>

definition dict_get :: "field_record \<Rightarrow> field \<Rightarrow> string option" where
  "dict_get d f = (case d f of None \<Rightarrow> None | Some v \<Rightarrow> v)"

definition field_value :: "field_record \<Rightarrow> field \<Rightarrow> string" where
  "field_value d f = get_or_empty (dict_get d f)"

text \<open>
  extract_event_details (calenderinternal.py). The date is today's or tomorrow's when
  the text contains the word; tomorrow's is \<open>datetime.now() + timedelta(days=1)\<close>.
\<close>

definition extract_event_details :: "env \<Rightarrow> string \<Rightarrow> field_record outcome" where
  "extract_event_details env text =
     (case (if contains (lower text) ''today'' then Returned (Some (strftime_Ymd (e_now env)))
            else if contains (lower text) ''tomorrow''
            then (case plus_one_day (e_now env) of
                    Raised e \<Rightarrow> Raised e
                  | Returned d \<Rightarrow> Returned (Some (strftime_Ymd d)))
            else Returned None) of
        Raised e \<Rightarrow> Raised e
      | Returned date \<Rightarrow>
          Returned (\<lambda>f. case f of
                      ParticipantEmail \<Rightarrow> map_option Some (e_match_address env text)
                    | EventName \<Rightarrow> map_option (\<lambda>n. Some (strip n)) (e_match_event_name env text)
                    | EventDate \<Rightarrow> map_option Some date
                    | EventTime \<Rightarrow> map_option Some (extract_event_time text)
                    | _ \<Rightarrow> None))"

text \<open>track_scheduled_meeting appends one entry to \<open>session['scheduled_meetings']\<close>.\<close>

definition track_scheduled_meeting :: "meeting list option \<Rightarrow> meeting \<Rightarrow> meeting list option" where
  "track_scheduled_meeting scheduled m =
     Some ((case scheduled of None \<Rightarrow> [] | Some ms \<Rightarrow> ms) @ [m])"

text \<open>
  The end of the schedule flow, once no field is missing (lines 1371 to 1433): the
  reply, the effects and the new \<open>session['scheduled_meetings']\<close>. The route clears the
  session after each of these replies.
\<close>

definition schedule_complete ::
  "env \<Rightarrow> meeting list option \<Rightarrow> field_record \<Rightarrow> reply \<times> effect list \<times> meeting list option" where
  "schedule_complete env scheduled details =
     (let email = field_value details ParticipantEmail;
          name = field_value details EventName
      in if \<not> services_have env [''gmail'', ''calendar'']
         then (CalendarOrGmailUnavailable, [], scheduled)
         else if \<not> validate_email email then (InvalidParticipantEmail, [], scheduled)
         else
           (case parse_datetime (e_parse_future env) (e_parse_plain env) (e_now env)
                   (field_value details EventDate) (field_value details EventTime) of
              Raised e \<Rightarrow> (ScheduleError e, [], scheduled)
            | Returned (start_time, end_time) \<Rightarrow>
                (if check_participant_calendar_conflicts
                      (cal_conflict_listing (e_calendar env) start_time end_time) email
                 then (ParticipantConflict email, [MailConflict email name], scheduled)
                 else
                   (case cal_insert (e_calendar env) name start_time end_time email of
                      Raised e \<Rightarrow> (CreateEventFailed, [CalendarInsert name email], scheduled)
                    | Returned (event_id, actual_meeting_link) \<Rightarrow>
                        (ScheduledOk name email actual_meeting_link,
                         [CalendarInsert name email],
                         track_scheduled_meeting scheduled
                           \<lparr>m_participant_email = email, m_event_name = name,
                            m_event_date = field_value details EventDate,
                            m_event_time = field_value details EventTime,
                            m_meeting_link = actual_meeting_link,
                            m_calendar_event_id = event_id\<rparr>)))))"

text \<open>\<open>session.clear()\<close>\<close>

definition clear :: "session \<Rightarrow> session" where
  "clear s = empty_session"

definition store :: "session \<Rightarrow> field_record \<Rightarrow> field \<Rightarrow> string \<Rightarrow> session" where
  "store s data f v = s\<lparr>s_data := Some (data(f \<mapsto> Some v)), s_waiting_for := None\<rparr>"

text \<open>
  The schedule flow after the awaited field has been dealt with: prompt for the first
  missing field, or act and clear the session.
\<close>

definition schedule_prompt_or_act ::
  "env \<Rightarrow> session \<Rightarrow> (reply \<times> session \<times> effect list) outcome" where
  "schedule_prompt_or_act env s =
     (case s_data s of
        None \<Rightarrow> Raised (key_error ''data'')
      | Some d \<Rightarrow>
          (case get_missing_field_prompt d of
             Some f \<Rightarrow> Returned (MissingFieldPrompt f, s\<lparr>s_waiting_for := Some f\<rparr>, [])
           | None \<Rightarrow>
               (case schedule_complete env (s_scheduled_meetings s) d of
                  (r, fx, scheduled) \<Rightarrow>
                    Returned (r, clear (s\<lparr>s_scheduled_meetings := scheduled\<rparr>), fx))))"

text \<open>
  The schedule flow (lines 1338 to 1435). \<open>data\<close> is the local variable of the route,
  the dict that it took from the session at the start of the turn. \<open>Inl\<close> is an early
  return with a reply, \<open>Inr\<close> the session with which the flow goes on.
\<close>

definition schedule_flow ::
  "env \<Rightarrow> session \<Rightarrow> field_record \<Rightarrow> string \<Rightarrow> (reply \<times> session \<times> effect list) outcome" where
  "schedule_flow env s data user_input =
     (case (case s_waiting_for s of
              None \<Rightarrow> Returned (Inr s)
            | Some f \<Rightarrow>
                (if f = ParticipantEmail \<and> validate_email user_input
                 then Returned (Inr (store s data f user_input))
                 else if f = EventName \<and> user_input \<noteq> []
                 then Returned (Inr (store s data f user_input))
                 else if f = EventDate
                 then (case accept_date (e_parse_future env) (e_now env) user_input of
                         Raised e \<Rightarrow> Raised e
                       | Returned (Some v) \<Rightarrow> Returned (Inr (store s data f v))
                       | Returned None \<Rightarrow> Returned (Inl EnterValidFutureDate))
                 else if f = EventTime
                 then (case extract_event_details env user_input of
                         Raised e \<Rightarrow> Raised e
                       | Returned extracted \<Rightarrow>
                           (if truthy (dict_get extracted EventTime)
                            then Returned (Inr (store s data f (field_value extracted EventTime)))
                            else Returned (Inl EnterValidTime)))
                 else Returned (Inr (s\<lparr>s_data := Some data, s_waiting_for := None\<rparr>)))) of
        Raised e \<Rightarrow> Raised e
      | Returned (Inl r) \<Rightarrow> Returned (r, s, [])
      | Returned (Inr s') \<Rightarrow> schedule_prompt_or_act env s')"

text \<open>
  process_update_field_input: the pair \<open>(success, message)\<close> becomes \<open>Inr\<close> of the
  changed dict on success and \<open>Inl\<close> of the reply that the route sends on failure.
\<close>

definition process_update_field_input ::
  "env \<Rightarrow> field \<Rightarrow> string \<Rightarrow> field_record \<Rightarrow> (reply + field_record) outcome" where
  "process_update_field_input env f user_input0 current_data =
     (let user_input = strip user_input0
      in if f = EventName \<and> user_input \<noteq> []
         then Returned (Inr (current_data(f \<mapsto> Some user_input)))
         else if f = NewDate
         then (case accept_date (e_parse_future env) (e_now env) user_input of
                 Raised e \<Rightarrow> Raised e
               | Returned (Some v) \<Rightarrow> Returned (Inr (current_data(f \<mapsto> Some v)))
               | Returned None \<Rightarrow> Returned (Inl UpdateEnterValidFutureDate))
         else if f = NewTime
         then (case extract_event_details env user_input of
                 Raised e \<Rightarrow> Raised e
               | Returned extracted \<Rightarrow>
                   (if truthy (dict_get extracted EventTime)
                    then Returned (Inr (current_data(f \<mapsto> Some (field_value extracted EventTime))))
                    else Returned (Inl UpdateEnterValidTimeRange)))
         else Returned (Inl UpdateInvalidInput))"

text \<open>
  get_scheduled_meetings_from_calendar, reduced to the events that it keeps, and
  sync_session_with_calendar; both catch every exception. For an event that it keeps,
  the first function reads \<open>attendee['email']\<close> of every attendee: an attendee
  without the key raises KeyError, and the handler returns the empty list for the whole
  calendar.
\<close>

definition get_scheduled_meetings_from_calendar :: "env \<Rightarrow> event list" where
  "get_scheduled_meetings_from_calendar env =
     (if \<not> services_have env [''calendar''] then []
      else (case cal_upcoming_listing (e_calendar env) of
              Raised e \<Rightarrow> []
            | Returned events \<Rightarrow>
                (let kept =
                       filter (\<lambda>e. has_attendees e \<and>
                                   is_user_organizer (ev_organizer e) (ev_creator e)
                                     (e_user_email env))
                         events
                 in if list_ex (\<lambda>e. case ev_attendees e of
                                       None \<Rightarrow> False
                                     | Some as \<Rightarrow> list_ex (\<lambda>a. a = None) as) kept
                    then [] else kept)))"

definition sync_session_with_calendar :: "env \<Rightarrow> meeting list option \<Rightarrow> meeting list option" where
  "sync_session_with_calendar env scheduled =
     map_option
       (filter (\<lambda>m. \<not> truthy (m_calendar_event_id m) \<or>
                     list_ex (\<lambda>e. Some (ev_id e) = m_calendar_event_id m)
                       (get_scheduled_meetings_from_calendar env)))
       scheduled"

text \<open>The reply after an executor of app.py has returned \<open>(success, message)\<close>.\<close>

definition finish_action ::
  "env \<Rightarrow> session \<Rightarrow> (bool \<times> message) \<times> effect list \<times> meeting list option \<Rightarrow>
     reply \<times> session \<times> effect list" where
  "finish_action env s result =
     (case result of
        ((success, msg), fx, scheduled) \<Rightarrow>
          (if success
           then (ActionSucceeded msg,
                 clear (s\<lparr>s_scheduled_meetings := sync_session_with_calendar env scheduled\<rparr>), fx)
           else (ActionFailed msg, clear (s\<lparr>s_scheduled_meetings := scheduled\<rparr>), fx)))"

text \<open>The update flow (lines 1437 to 1492).\<close>

definition update_prompt_or_act ::
  "env \<Rightarrow> session \<Rightarrow> (reply \<times> session \<times> effect list) outcome" where
  "update_prompt_or_act env s =
     (case s_data s of
        None \<Rightarrow> Raised (key_error ''data'')
      | Some d \<Rightarrow>
          (case get_missing_update_field_prompt d of
             Some f \<Rightarrow> Returned (MissingUpdateFieldPrompt f, s\<lparr>s_waiting_for := Some f\<rparr>, [])
           | None \<Rightarrow>
               (if \<not> services_have env [''calendar'', ''gmail'']
                then Returned (ServicesUnavailable, clear s, [])
                else Returned
                       (finish_action env s
                          (update_event_with_sync (e_calendar env) (e_mail env)
                             (e_parse_future env) (e_parse_plain env) (e_now env)
                             (e_user_email env) (s_scheduled_meetings s)
                             (field_value d EventName) (field_value d NewDate)
                             (field_value d NewTime))))))"

definition update_flow ::
  "env \<Rightarrow> session \<Rightarrow> string \<Rightarrow> (reply \<times> session \<times> effect list) outcome" where
  "update_flow env s user_input =
     (case s_waiting_for s of
        None \<Rightarrow> update_prompt_or_act env s
      | Some f \<Rightarrow>
          (case s_data s of
             None \<Rightarrow> Raised (key_error ''data'')
           | Some d \<Rightarrow>
               (case process_update_field_input env f user_input d of
                  Raised e \<Rightarrow> Raised e
                | Returned (Inl r) \<Rightarrow> Returned (r, s, [])
                | Returned (Inr d') \<Rightarrow>
                    update_prompt_or_act env (s\<lparr>s_data := Some d', s_waiting_for := None\<rparr>))))"

text \<open>The delete flow (lines 1495 to 1638).\<close>

definition deletable_of :: "env \<Rightarrow> event \<Rightarrow> deletable outcome" where
  "deletable_of env e =
     (let start_str = get_or_empty (start_text e)
      in case (if start_str \<noteq> []
               then (if contains start_str ''T'' then e_format_start env start_str
                     else Returned start_str)
               else Returned ''Date unknown'') of
           Raised x \<Rightarrow> Raised x
         | Returned formatted_date \<Rightarrow>
             Returned \<lparr>d_name = summary_of e, d_formatted_date = formatted_date, d_id = ev_id e,
                       d_has_attendees =
                         (1 < length (case ev_attendees e of None \<Rightarrow> [] | Some as \<Rightarrow> as))\<rparr>)"

definition deletable_events_of :: "env \<Rightarrow> event list \<Rightarrow> deletable list outcome" where
  "deletable_events_of env events =
     collect (map (deletable_of env)
       (filter (\<lambda>e. is_user_organizer (ev_organizer e) (ev_creator e) (e_user_email env) \<and>
                    truthy (ev_summary e))
          events))"

text \<open>
  \<open>str.isdigit\<close> also holds for the superscripts one, two and three, which \<open>int\<close>
  does not read: \<open>int\<close> raises ValueError for a text with one of them.
\<close>

definition is_digits :: "string \<Rightarrow> bool" where
  "is_digits s =
     (s \<noteq> [] \<and> list_all (\<lambda>c. is_digit c \<or> c \<in> set [CHR 0xB2, CHR 0xB3, CHR 0xB9]) s)"

definition digit_value :: "char \<Rightarrow> nat" where
  "digit_value c = of_char c - 48"

definition int_of_digits :: "string \<Rightarrow> nat" where
  "int_of_digits s = foldl (\<lambda>n c. 10 * n + digit_value c) 0 s"

definition py_int :: "string \<Rightarrow> nat outcome" where
  "py_int s =
     (if s \<noteq> [] \<and> list_all is_digit s then Returned (int_of_digits s)
      else Raised ''invalid literal for int() with base 10'')"

definition ask_which_event :: "env \<Rightarrow> session \<Rightarrow> reply \<times> session \<times> effect list" where
  "ask_which_event env s =
     (let fallback = (WhichEventToDelete, s\<lparr>s_waiting_for := Some EventName\<rparr>, [])
      in if services_have env [''calendar'']
         then (case cal_recent_listing (e_calendar env) of
                 Raised e \<Rightarrow> fallback
               | Returned events \<Rightarrow>
                   (case deletable_events_of env events of
                      Raised e \<Rightarrow> fallback
                    | Returned [] \<Rightarrow> (NoDeletableEvents, clear s, [])
                    | Returned (d # ds) \<Rightarrow>
                        (DeletableEvents (take 8 (d # ds)),
                         s\<lparr>s_waiting_for := Some EventName, s_deletable_events := Some (d # ds)\<rparr>,
                         [])))
         else fallback)"

definition delete_act :: "env \<Rightarrow> session \<Rightarrow> field_record \<Rightarrow> reply \<times> session \<times> effect list" where
  "delete_act env s details =
     (if \<not> services_have env [''calendar'', ''gmail''] then (ServicesUnavailable, clear s, [])
      else finish_action env s
             (delete_event_with_sync (e_calendar env) (e_mail env) (e_user_email env)
                (s_scheduled_meetings s) (field_value details EventName)))"

definition delete_flow ::
  "env \<Rightarrow> session \<Rightarrow> string \<Rightarrow> (reply \<times> session \<times> effect list) outcome" where
  "delete_flow env s user_input =
     (case s_data s of
        None \<Rightarrow> Raised (key_error ''data'')
      | Some details0 \<Rightarrow>
          (case (if s_waiting_for s = Some EventName
                 then (if strip user_input \<noteq> []
                       then Inr (s\<lparr>s_data := Some (details0(EventName \<mapsto> Some (strip user_input))),
                                   s_waiting_for := None\<rparr>,
                                 details0(EventName \<mapsto> Some (strip user_input)))
                       else Inl EnterValidEventName)
                 else Inr (s, details0)) of
             Inl r \<Rightarrow> Returned (r, s, [])
           | Inr (s1, details) \<Rightarrow>
               (if is_missing details EventName then Returned (ask_which_event env s1)
                else if is_digits user_input \<and> s_deletable_events s1 \<noteq> None
                then (case py_int user_input of
                        Raised e \<Rightarrow> Returned (delete_act env s1 details)
                      | Returned n \<Rightarrow>
                          (let deletable_events =
                                 (case s_deletable_events s1 of None \<Rightarrow> [] | Some ds \<Rightarrow> ds)
                           in if 1 \<le> n \<and> n \<le> length deletable_events
                              then Returned
                                     (delete_act env
                                        (s1\<lparr>s_data := Some (details(EventName \<mapsto>
                                                               Some (d_name (deletable_events ! (n - 1))))),
                                            s_deletable_events := None\<rparr>)
                                        (details(EventName \<mapsto>
                                                   Some (d_name (deletable_events ! (n - 1))))))
                              else Returned (InvalidEventNumber, s1, [])))
                else Returned (delete_act env s1 details))))"

text \<open>
  process_meeting_requests_from_chat (lines 2524 to 2609). The loop over the first three
  pending requests keeps the counts, the effects and \<open>session['scheduled_meetings']\<close>;
  whatever raises while one request is handled is caught inside the loop and counted as
  an error, as incomplete details are. \<open>Inl\<close> is a raise of the extractor, which
  reaches the last handler of the function. The function never clears the session: its
  answer carries \<open>"action": "clear_session"\<close> for the front end.
\<close>

record batch =
  b_scheduled :: "meeting list option"
  b_processed :: nat
  b_conflicts :: nat
  b_errors :: nat
  b_effects :: "effect list"

fun process_requests :: "env \<Rightarrow> string list \<Rightarrow> batch \<Rightarrow> string \<times> batch + batch" where
  "process_requests env [] b = Inr b"
| "process_requests env (email # rest) b =
     (case e_meeting_details env email of
        Raised e \<Rightarrow> Inl (e, b)
      | Returned None \<Rightarrow> process_requests env rest (b\<lparr>b_errors := b_errors b + 1\<rparr>)
      | Returned (Some (participant, name, event_date, event_time)) \<Rightarrow>
          (if \<not> validate_email participant
           then process_requests env rest (b\<lparr>b_errors := b_errors b + 1\<rparr>)
           else
             (case parse_datetime (e_parse_future env) (e_parse_plain env) (e_now env)
                     event_date event_time of
                Raised e \<Rightarrow> process_requests env rest (b\<lparr>b_errors := b_errors b + 1\<rparr>)
              | Returned (start_time, end_time) \<Rightarrow>
                  (if check_participant_calendar_conflicts
                        (cal_conflict_listing (e_calendar env) start_time end_time) participant
                   then process_requests env rest
                          (b\<lparr>b_conflicts := b_conflicts b + 1,
                             b_effects := b_effects b @ [MailConflict participant name]\<rparr>)
                   else
                     (case cal_insert (e_calendar env) name start_time end_time participant of
                        Raised e \<Rightarrow>
                          process_requests env rest
                            (b\<lparr>b_errors := b_errors b + 1,
                               b_effects := b_effects b @ [CalendarInsert name participant]\<rparr>)
                      | Returned (event_id, actual_meeting_link) \<Rightarrow>
                          process_requests env rest
                            (b\<lparr>b_processed := b_processed b + 1,
                               b_effects := b_effects b @ [CalendarInsert name participant],
                               b_scheduled :=
                                 track_scheduled_meeting (b_scheduled b)
                                   \<lparr>m_participant_email = participant, m_event_name = name,
                                    m_event_date = event_date, m_event_time = event_time,
                                    m_meeting_link = actual_meeting_link,
                                    m_calendar_event_id = event_id\<rparr>\<rparr>))))))"

definition process_meeting_requests_from_chat ::
  "env \<Rightarrow> session \<Rightarrow> reply \<times> session \<times> effect list" where
  "process_meeting_requests_from_chat env s =
     (let meeting_requests = (case s_meeting_requests s of None \<Rightarrow> [] | Some rs \<Rightarrow> rs)
      in if meeting_requests = [] then (MeetingRequestsProcessed BatchNothing, s, [])
         else if \<not> services_have env [''gmail'', ''calendar'']
         then (MeetingRequestsProcessed BatchServicesUnavailable, s, [])
         else
           (case process_requests env (take 3 meeting_requests)
                   \<lparr>b_scheduled = s_scheduled_meetings s, b_processed = 0, b_conflicts = 0,
                    b_errors = 0, b_effects = []\<rparr> of
              Inl (e, b) \<Rightarrow>
                (MeetingRequestsProcessed (BatchFailed e),
                 s\<lparr>s_scheduled_meetings := b_scheduled b\<rparr>, b_effects b)
            | Inr b \<Rightarrow>
                (MeetingRequestsProcessed (BatchDone (b_processed b) (b_conflicts b) (b_errors b)),
                 s\<lparr>s_scheduled_meetings := b_scheduled b\<rparr>, b_effects b)))"

text \<open>
  The email branch, and the first message of a conversation: the classifiers in the
  order of the \<open>if\<close> chain. \<open>Inl\<close> is a turn that ends with a reply, \<open>Inr\<close> the session
  with its new intent and seeded record.
\<close>

definition email_branch :: "env \<Rightarrow> session \<Rightarrow> string \<Rightarrow> reply \<times> session \<times> effect list" where
  "email_branch env s user_input =
     (if \<not> services_have env [''gmail''] then (GmailNotAvailable, s, [])
      else (case e_email_run env user_input of
              EmailsNone \<Rightarrow> (NoEmailsFound, s, [])
            | EmailsSummarised processed requests \<Rightarrow>
                (EmailSummary,
                 s\<lparr>s_processed_emails := Some processed, s_meeting_requests := Some requests\<rparr>, [])
            | EmailsFailed \<Rightarrow> (EmailProcessingError, s, [])
            | EmailsStoredThenFailed processed requests \<Rightarrow>
                (EmailProcessingError,
                 s\<lparr>s_processed_emails := Some processed, s_meeting_requests := Some requests\<rparr>, [])))"

definition update_record :: "(string \<times> string) list \<Rightarrow> field_record" where
  "update_record extracted =
     [EventName \<mapsto> map_of extracted ''event_name'',
      NewDate \<mapsto> map_of extracted ''event_date'',
      NewTime \<mapsto> map_of extracted ''event_time'']"

definition delete_record :: "(string \<times> string) list \<Rightarrow> field_record" where
  "delete_record extracted =
     (case map_of extracted ''event_name'' of
        None \<Rightarrow> Map.empty
      | Some n \<Rightarrow> [EventName \<mapsto> Some n])"

definition detect_intent ::
  "env \<Rightarrow> session \<Rightarrow> string \<Rightarrow> ((reply \<times> session \<times> effect list) + session) outcome" where
  "detect_intent env s user_input =
     (if is_schedule_intent user_input
      then (case extract_event_details env user_input of
              Raised e \<Rightarrow> Raised e
            | Returned extracted \<Rightarrow>
                Returned (Inr (s\<lparr>s_intent := Some Schedule, s_data := Some extracted\<rparr>)))
      else if is_update_intent user_input
      then Returned (Inr (s\<lparr>s_intent := Some Update, s_update_text := Some user_input,
                            s_data := Some (update_record (e_extract_update_details env user_input))\<rparr>))
      else if is_delete_intent user_input
      then Returned (Inr (s\<lparr>s_intent := Some Delete, s_delete_text := Some user_input,
                            s_data := Some (delete_record (e_extract_delete_details env user_input))\<rparr>))
      else if contains (lower user_input) ''yes'' \<and>
              (case s_meeting_requests s of None \<Rightarrow> False | Some rs \<Rightarrow> rs \<noteq> [])
      then Returned (Inl (process_meeting_requests_from_chat env s))
      else Returned (Inl (ChatText, s, [])))"

text \<open>
  chat_route: one turn. The result is the reply, the session after the turn and the
  effects of the turn. Whatever raises inside the route is caught by its last handler,
  which clears the session.
\<close>

definition ensure_defaults :: "session \<Rightarrow> session" where
  "ensure_defaults s0 =
     s0\<lparr>s_data := (case s_data s0 of None \<Rightarrow> Some Map.empty | Some d \<Rightarrow> Some d),
        s_messages := (case s_messages s0 of None \<Rightarrow> Some [] | Some ms \<Rightarrow> Some ms)\<rparr>"

definition chat_turn ::
  "env \<Rightarrow> session \<Rightarrow> string \<Rightarrow> (reply \<times> session \<times> effect list) outcome" where
  "chat_turn env s0 user_input =
     (let s = ensure_defaults s0;
          data = (case s_data s0 of None \<Rightarrow> Map.empty | Some d \<Rightarrow> d)
      in if is_email_processing_intent user_input \<and> s_intent s = None
         then Returned (email_branch env s user_input)
         else
           (case (if s_intent s = None then detect_intent env s user_input
                  else Returned (Inr s)) of
              Raised e \<Rightarrow> Raised e
            | Returned (Inl r) \<Rightarrow> Returned r
            | Returned (Inr s') \<Rightarrow>
                (case s_intent s' of
                   None \<Rightarrow> Raised (key_error ''intent'')
                 | Some Schedule \<Rightarrow> schedule_flow env s' data user_input
                 | Some Update \<Rightarrow> update_flow env s' user_input
                 | Some Delete \<Rightarrow> delete_flow env s' user_input)))"

definition chat_route :: "env \<Rightarrow> session \<Rightarrow> string \<Rightarrow> reply \<times> session \<times> effect list" where
  "chat_route env s message =
     (let user_input = strip message
      in if user_input = [] then (PleaseEnterMessage, s, [])
         else (case chat_turn env s (correct_schedule_spelling user_input) of
                 Raised e \<Rightarrow> (ErrorOccurred, clear s, [])
               | Returned r \<Rightarrow> r))"

section \<open>Notions used to state the properties\<close>

text \<open>
  The sessions that a conversation can be in: the empty one, and whatever a turn of the
  chat route makes of one of them, in any environment and for any message.
\<close>

inductive reachable :: "session \<Rightarrow> bool" where
  start: "reachable empty_session"
| turn: "reachable s \<Longrightarrow> chat_route env s message = (r, s', fx) \<Longrightarrow> reachable s'"

text \<open>
  An awaited field comes with an intent and a record, and in a schedule conversation it
  is the first required field that the record lacks.
\<close>

definition well_formed :: "session \<Rightarrow> bool" where
  "well_formed s =
     (case s_waiting_for s of
        None \<Rightarrow> True
      | Some f \<Rightarrow>
          s_messages s \<noteq> None \<and> s_intent s \<noteq> None \<and>
          (case s_data s of
             None \<Rightarrow> False
           | Some d \<Rightarrow> s_intent s \<noteq> Some Schedule \<or> get_missing_field_prompt d = Some f))"

text \<open>The field that a reply asks the user for.\<close>

fun asks_for :: "reply \<Rightarrow> field option" where
  "asks_for (MissingFieldPrompt f) = Some f"
| "asks_for (MissingUpdateFieldPrompt f) = Some f"
| "asks_for EnterValidFutureDate = Some EventDate"
| "asks_for EnterValidTime = Some EventTime"
| "asks_for UpdateEnterValidFutureDate = Some NewDate"
| "asks_for UpdateEnterValidTimeRange = Some NewTime"
| "asks_for EnterValidEventName = Some EventName"
| "asks_for WhichEventToDelete = Some EventName"
| "asks_for (DeletableEvents ds) = Some EventName"
| "asks_for r = None"

text \<open>
  The text has no time in it: extract_event_details returns a dict without a true
  \<open>event_time\<close>.
\<close>

definition time_rejected :: "env \<Rightarrow> string \<Rightarrow> bool" where
  "time_rejected env text =
     (case extract_event_details env text of
        Raised e \<Rightarrow> False
      | Returned extracted \<Rightarrow> \<not> truthy (dict_get extracted EventTime))"

text \<open>
  The validator of the awaited field rejects the text of the turn: an invalid address
  or a rejected date or time in a schedule conversation, a rejected date or time in an
  update conversation (whose validator strips the text once more).
\<close>

fun rejects :: "env \<Rightarrow> intent \<Rightarrow> field \<Rightarrow> string \<Rightarrow> bool" where
  "rejects env Schedule ParticipantEmail text = (\<not> validate_email text)"
| "rejects env Schedule EventDate text =
     (accept_date (e_parse_future env) (e_now env) text = Returned None)"
| "rejects env Schedule EventTime text = time_rejected env text"
| "rejects env Update NewDate text =
     (accept_date (e_parse_future env) (e_now env) (strip text) = Returned None)"
| "rejects env Update NewTime text = time_rejected env (strip text)"
| "rejects env i f text = False"

text \<open>
  The replies that end a conversation: the outcome of an action (done, not found,
  conflict, failure), the refusals for lack of a service or of a valid address, the
  empty listing, the reply of the last handler, and the answer to the processing of the
  pending meeting requests.
\<close>

fun terminal :: "reply \<Rightarrow> bool" where
  "terminal (ScheduledOk n a l) = True"
| "terminal (ParticipantConflict a) = True"
| "terminal CreateEventFailed = True"
| "terminal (ScheduleError e) = True"
| "terminal (ActionSucceeded m) = True"
| "terminal (ActionFailed m) = True"
| "terminal CalendarOrGmailUnavailable = True"
| "terminal InvalidParticipantEmail = True"
| "terminal ServicesUnavailable = True"
| "terminal NoDeletableEvents = True"
| "terminal ErrorOccurred = True"
| "terminal (MeetingRequestsProcessed b) = True"
| "terminal r = False"

text \<open>
  Classification as the specification words it: classifiers tried in a fixed order, the
  first one that matches gives the intent. \<open>spec_order\<close> is the order of the
  specification for the keyword classifiers, \<open>api_order\<close> the order of the
  \<open>/api/chat\<close> route of calenderinternal.py.
\<close>

definition first_matching :: "(intent \<times> (string \<Rightarrow> bool)) list \<Rightarrow> string \<Rightarrow> intent option" where
  "first_matching classifiers message =
     map_option fst (find (\<lambda>(i, matches). matches message) classifiers)"

definition spec_order :: "(intent \<times> (string \<Rightarrow> bool)) list" where
  "spec_order =
     [(Schedule, is_schedule_intent), (Update, is_update_intent), (Delete, is_delete_intent)]"

definition api_order :: "(intent \<times> (string \<Rightarrow> bool)) list" where
  "api_order =
     [(Update, is_update_intent), (Delete, is_delete_intent), (Schedule, is_schedule_intent)]"

text \<open>
  The turn is the answer \<open>yes\<close> to pending meeting requests: no intent is active, no
  classifier matches, and the session holds requests.
\<close>

definition answers_pending_requests :: "session \<Rightarrow> string \<Rightarrow> bool" where
  "answers_pending_requests s user_input =
     (s_intent s = None \<and> \<not> is_email_processing_intent user_input \<and>
      first_matching spec_order user_input = None \<and> contains (lower user_input) ''yes'' \<and>
      (case s_meeting_requests s of None \<Rightarrow> False | Some rs \<Rightarrow> rs \<noteq> []))"

definition email_reply :: "reply \<Rightarrow> bool" where
  "email_reply r = (r \<in> set [GmailNotAvailable, NoEmailsFound, EmailSummary, EmailProcessingError])"

definition free_form_reply :: "reply \<Rightarrow> bool" where
  "free_form_reply r = (case r of ChatText \<Rightarrow> True | MeetingRequestsProcessed b \<Rightarrow> True | _ \<Rightarrow> False)"

text \<open>
  The attendees of an event that have an address, and among them those that are not the
  user and that the conflict check finds busy between two instants. When the user's
  address is not known, nobody is the user.
\<close>

definition attendee_addresses :: "event \<Rightarrow> string list" where
  "attendee_addresses e =
     filter (\<lambda>a. a \<noteq> []) (map get_or_empty (case ev_attendees e of None \<Rightarrow> [] | Some as \<Rightarrow> as))"

definition busy_attendees ::
  "calendar_api \<Rightarrow> event \<Rightarrow> string option \<Rightarrow> pydatetime \<Rightarrow> pydatetime \<Rightarrow> string list" where
  "busy_attendees cal e user_email start_time end_time =
     filter (\<lambda>a. (\<not> truthy user_email \<or> lower a \<noteq> lower (get_or_empty user_email)) \<and>
                  check_participant_calendar_conflicts
                    (cal_conflict_listing cal start_time end_time) a)
       (attendee_addresses e)"

section \<open>Sample data for the closed statements\<close>

definition at_time :: "nat \<Rightarrow> nat \<Rightarrow> nat \<Rightarrow> nat \<Rightarrow> nat \<Rightarrow> tzinfo option \<Rightarrow> pydatetime" where
  "at_time y m d h mi tz =
     \<lparr>dt_year = y, dt_month = m, dt_day = d, dt_hour = h, dt_minute = mi, dt_second = 0,
      dt_micro = 0, dt_tz = tz\<rparr>"

definition sample_now :: pydatetime where
  "sample_now = at_time 2026 11 3 9 0 None"

text \<open>
  The answers of \<open>dateparser.parse\<close>, on the morning of 3 November 2026, for the texts
  that the closed statements pass to it; every other text is taken as unreadable.
\<close>

definition sample_parser :: parser where
  "sample_parser text =
     (if text = ''today'' then Returned (Some (at_time 2026 11 3 9 0 None))
      else if text = ''yesterday'' then Returned (Some (at_time 2026 11 2 9 0 None))
      else if text = ''2026-11-04'' then Returned (Some (at_time 2026 11 4 0 0 None))
      else if text = ''2026-11-04 11:30 pm'' then Returned (Some (at_time 2026 11 4 23 30 None))
      else if text = ''2026-11-04 12:30 AM'' then Returned (Some (at_time 2026 11 4 0 30 None))
      else if text = ''2026-11-04 10 am'' then Returned (Some (at_time 2026 11 4 10 0 None))
      else if text = ''2026-11-04 11:00 AM'' then Returned (Some (at_time 2026 11 4 11 0 None))
      else Returned None)"

definition sample_event :: "string \<Rightarrow> string \<Rightarrow> event" where
  "sample_event i title =
     \<lparr>ev_id = i, ev_summary = Some title,
      ev_attendees = Some [Some ''me@example.com'', Some ''bob@example.com''],
      ev_organizer = Some ''me@example.com'', ev_creator = Some ''me@example.com'',
      ev_start = Some (Some ''2026-11-10'')\<rparr>"

text \<open>
  A calendar with one event; every call succeeds, nobody is busy, and a read of a deleted
  event is answered with an error.
\<close>

definition sample_calendar :: "string \<Rightarrow> calendar_api" where
  "sample_calendar title =
     \<lparr>cal_conflict_listing = (\<lambda>start_time end_time. Returned []),
      cal_search_listing = Returned [sample_event ''evt1'' title],
      cal_suggest_listing = Returned [sample_event ''evt1'' title],
      cal_recent_listing = Returned [sample_event ''evt1'' title],
      cal_upcoming_listing = Returned [sample_event ''evt1'' title],
      cal_insert = (\<lambda>summary start_time end_time participant.
                     Returned (Some ''evt2'', ''https://meet.example/abc'')),
      cal_update = (\<lambda>event_id. Returned ()),
      cal_delete = (\<lambda>event_id. Returned ()),
      cal_get_status = (\<lambda>event_id. Raised ''HttpError 404: Not Found'')\<rparr>"

definition sample_mail :: mail_api where
  "sample_mail =
     \<lparr>mail_conflict = (\<lambda>a. True), mail_cancel = (\<lambda>a. True), mail_reschedule = (\<lambda>a. True)\<rparr>"

definition sample_env :: "string \<Rightarrow> env" where
  "sample_env title =
     \<lparr>e_services = Some [''gmail'', ''calendar''],
      e_calendar = sample_calendar title, e_mail = sample_mail,
      e_user_email = Some ''me@example.com'', e_now = sample_now,
      e_parse_future = sample_parser, e_parse_plain = sample_parser,
      e_match_address = (\<lambda>text. None), e_match_event_name = (\<lambda>text. None),
      e_extract_update_details = (\<lambda>text. []), e_extract_delete_details = (\<lambda>text. []),
      e_email_run = (\<lambda>text. EmailsNone),
      e_meeting_details = (\<lambda>email. Returned None),
      e_format_start = (\<lambda>text. Returned text)\<rparr>"

text \<open>
  The same environment with one email in the inbox, a meeting request whose details the
  extractor reads completely.
\<close>

definition inbox_env :: env where
  "inbox_env =
     (sample_env ''Team Sync'')
       \<lparr>e_email_run := (\<lambda>text. EmailsSummarised [''Sync request''] [''Sync request'']),
        e_meeting_details :=
          (\<lambda>email. Returned (Some (''bob@example.com'', ''Team Sync'', ''2026-11-04'', ''10 am'')))\<rparr>"

text \<open>
  The session after the first turn of a conversation in that environment, in which the
  user asks for the emails: the meeting request is pending.
\<close>

definition inbox_session :: session where
  "inbox_session = fst (snd (chat_route inbox_env empty_session ''get emails''))"

text \<open>The same calendar, on which the event has already been removed by someone else.\<close>

definition gone_calendar :: "string \<Rightarrow> calendar_api" where
  "gone_calendar title =
     (sample_calendar title)\<lparr>cal_delete := (\<lambda>event_id. Raised ''HttpError 404: Not Found'')\<rparr>"

definition gone_env :: "string \<Rightarrow> env" where
  "gone_env title = (sample_env title)\<lparr>e_calendar := gone_calendar title\<rparr>"

text \<open>A session in which the intent is known and the record holds the given fields.\<close>

definition session_with :: "intent \<Rightarrow> field_record \<Rightarrow> field option \<Rightarrow> session" where
  "session_with i d w =
     empty_session\<lparr>s_data := Some d, s_messages := Some [], s_intent := Some i,
                   s_waiting_for := w\<rparr>"

text \<open>
  The shape \<open>YYYY-MM-DD\<close>, and the numbers that such a string spells.
\<close>

definition is_iso_date :: "string \<Rightarrow> bool" where
  "is_iso_date t =
     (length t = 10 \<and> t ! 4 = CHR ''-'' \<and> t ! 7 = CHR ''-'' \<and>
      list_all (\<lambda>i. is_digit (t ! i)) [0, 1, 2, 3, 5, 6, 8, 9])"

definition iso_fields :: "string \<Rightarrow> nat \<times> nat \<times> nat" where
  "iso_fields t =
     (int_of_digits (take 4 t), int_of_digits (take 2 (drop 5 t)), int_of_digits (drop 8 t))"

text \<open>A calendar on which the insert call fails, and one on which every attendee is busy.\<close>

definition failing_calendar :: "string \<Rightarrow> calendar_api" where
  "failing_calendar title =
     (sample_calendar title)
       \<lparr>cal_insert := (\<lambda>summary start_time end_time participant.
                         Raised ''HttpError 500: Backend Error'')\<rparr>"

definition busy_calendar :: "string \<Rightarrow> calendar_api" where
  "busy_calendar title =
     (sample_calendar title)
       \<lparr>cal_conflict_listing := (\<lambda>start_time end_time. Returned [sample_event ''evt9'' ''Dentist''])\<rparr>"

definition full_record :: field_record where
  "full_record =
     [ParticipantEmail \<mapsto> Some ''bob@example.com'', EventName \<mapsto> Some ''Team Sync'',
      EventDate \<mapsto> Some ''2026-11-04'', EventTime \<mapsto> Some ''10 am'']"

section \<open>Properties\<close>

subsection \<open>Evaluation of the string helpers\<close>

lemma lower_Nil [simp]: "lower [] = []"
  by (simp add: lower_def)

lemma lower_Cons [simp]: "lower (c # cs) = lower_char c # lower cs"
  by (simp add: lower_def)

lemma length_lower [simp]: "length (lower s) = length s"
  by (simp add: lower_def)

subsection \<open>The organizer check\<close>

lemma is_user_organizer_eq:
  "is_user_organizer organizer_email creator_email user_email =
     (truthy user_email \<and>
      lower (get_or_empty organizer_email) = lower (get_or_empty user_email))"
  by (simp add: is_user_organizer_def)

text \<open>
  C9. The claim asks that, for a known user address, the check holds exactly when the
  address equals the organizer's or the creator's. The code never looks at the creator:
  for a user who created an event that somebody else organizes, the check is false.
\<close>

theorem C9_creator_is_ignored:
  "is_user_organizer (Some ''boss@example.com'') (Some ''me@example.com'')
     (Some ''me@example.com'') = False"
  by (simp add: is_user_organizer_def lower_char_def)

subsection \<open>Formatting a date\<close>

lemma is_digit_digit_char [simp]: "is_digit (digit_char n)"
proof -
  have "n mod 10 < length ''0123456789''" by simp
  then have "''0123456789'' ! (n mod 10) \<in> set ''0123456789''" by (rule nth_mem)
  then show ?thesis by (simp only: is_digit_def digit_char_def)
qed

lemma digit_value_nth: "\<forall>k<10. digit_value (''0123456789'' ! k) = k"
  by (simp add: eval_nat_numeral less_Suc_eq digit_value_def)

lemma digit_value_digit_char [simp]: "digit_value (digit_char n) = n mod 10"
  using digit_value_nth by (simp add: digit_char_def)

lemma length_pad4 [simp]: "length (pad4 n) = 4"
  by (simp add: pad4_def)

lemma length_pad2 [simp]: "length (pad2 n) = 2"
  by (simp add: pad2_def)

lemma int_of_digits_pad2: "n < 100 \<Longrightarrow> int_of_digits (pad2 n) = n"
  by (simp add: int_of_digits_def pad2_def)

lemma int_of_digits_pad4:
  assumes "n < 10000"
  shows "int_of_digits (pad4 n) = n"
proof -
  have a: "n div 1000 mod 10 = n div 1000" using assms by simp
  have b: "n div 1000 = n div 100 div 10" by (simp add: div_mult2_eq)
  have c: "n div 100 = n div 10 div 10" by (simp add: div_mult2_eq)
  have "10 * (n div 100 div 10) + n div 100 mod 10 = n div 100" by simp
  moreover have "10 * (n div 10 div 10) + n div 10 mod 10 = n div 10" by simp
  moreover have "10 * (n div 10) + n mod 10 = n" by simp
  ultimately have
    "10 * (10 * (10 * (n div 1000) + n div 100 mod 10) + n div 10 mod 10) + n mod 10 = n"
    using b c by presburger
  then show ?thesis using a by (simp add: int_of_digits_def pad4_def)
qed

lemma is_iso_date_strftime: "is_iso_date (strftime_Ymd d)"
  by (simp add: is_iso_date_def strftime_Ymd_def pad4_def pad2_def)

lemma iso_fields_strftime: "valid_datetime d \<Longrightarrow> iso_fields (strftime_Ymd d) = date_of d"
  by (simp add: iso_fields_def strftime_Ymd_def date_of_def valid_datetime_def
      int_of_digits_pad2 int_of_digits_pad4)

subsection \<open>Validation of a date\<close>

lemma accept_date_Some_iff:
  "(\<exists>v. accept_date parse now text = Returned (Some v)) =
   (\<exists>p. parse text = Returned (Some p) \<and> date_le (date_of now) (date_of p))"
  by (auto simp: accept_date_def split: outcome.splits option.splits if_splits)

lemma accept_date_accepts:
  "parse text = Returned (Some p) \<Longrightarrow> date_le (date_of now) (date_of p) \<Longrightarrow>
   accept_date parse now text = Returned (Some (strftime_Ymd p))"
  by (simp add: accept_date_def)

lemma accept_date_rejects:
  "parse text = Returned (Some p) \<Longrightarrow> \<not> date_le (date_of now) (date_of p) \<Longrightarrow>
   accept_date parse now text = Returned None"
  by (simp add: accept_date_def)

lemma date_le_refl [simp]: "date_le d d"
  by (cases d) simp

lemma schedule_flow_date:
  "s_waiting_for s = Some EventDate \<Longrightarrow>
   schedule_flow env s data text =
     (case accept_date (e_parse_future env) (e_now env) text of
        Raised e \<Rightarrow> Raised e
      | Returned None \<Rightarrow> Returned (EnterValidFutureDate, s, [])
      | Returned (Some v) \<Rightarrow> schedule_prompt_or_act env (store s data EventDate v))"
  by (simp add: schedule_flow_def split: outcome.splits option.splits)

lemma process_update_date:
  "process_update_field_input env NewDate text d =
     (case accept_date (e_parse_future env) (e_now env) (strip text) of
        Raised e \<Rightarrow> Raised e
      | Returned None \<Rightarrow> Returned (Inl UpdateEnterValidFutureDate)
      | Returned (Some v) \<Rightarrow> Returned (Inr (d(NewDate \<mapsto> Some v))))"
  by (simp add: process_update_field_input_def split: outcome.splits option.splits)

lemma sample_env_simps [simp]:
  "e_parse_future (sample_env t) = sample_parser"
  "e_parse_plain (sample_env t) = sample_parser"
  "e_now (sample_env t) = sample_now"
  "e_services (sample_env t) = Some [''gmail'', ''calendar'']"
  "e_calendar (sample_env t) = sample_calendar t"
  "e_mail (sample_env t) = sample_mail"
  "e_user_email (sample_env t) = Some ''me@example.com''"
  by (simp_all add: sample_env_def)

text \<open>
  C5. A text supplied for an awaited date is accepted exactly when the parser returns a
  date that is not before today's, and what is stored is that date in the form
  \<open>YYYY-MM-DD\<close>, which reads back as the same date. With a parser that reads
  \<open>yesterday\<close> as an earlier day and \<open>today\<close> as the present day, the first is
  rejected and the second accepted. Both flows that await a date (the schedule flow for
  \<open>event_date\<close>, process_update_field_input for \<open>new_date\<close>) make exactly this check.
\<close>

theorem C5_date_validation:
  "((\<exists>v. accept_date (e_parse_future env) (e_now env) text = Returned (Some v)) =
      (\<exists>p. e_parse_future env text = Returned (Some p) \<and>
           date_le (date_of (e_now env)) (date_of p))) \<and>
   (\<forall>p. e_parse_future env text = Returned (Some p) \<and>
        date_le (date_of (e_now env)) (date_of p) \<longrightarrow>
        accept_date (e_parse_future env) (e_now env) text = Returned (Some (strftime_Ymd p)) \<and>
        is_iso_date (strftime_Ymd p) \<and>
        (valid_datetime p \<longrightarrow> iso_fields (strftime_Ymd p) = date_of p)) \<and>
   (\<forall>p. e_parse_future env ''yesterday'' = Returned (Some p) \<and>
        \<not> date_le (date_of (e_now env)) (date_of p) \<longrightarrow>
        accept_date (e_parse_future env) (e_now env) ''yesterday'' = Returned None) \<and>
   (\<forall>p. e_parse_future env ''today'' = Returned (Some p) \<and> date_of p = date_of (e_now env) \<longrightarrow>
        accept_date (e_parse_future env) (e_now env) ''today'' =
          Returned (Some (strftime_Ymd p))) \<and>
   (s_waiting_for s = Some EventDate \<longrightarrow>
      schedule_flow env s data text =
        (case accept_date (e_parse_future env) (e_now env) text of
           Raised e \<Rightarrow> Raised e
         | Returned None \<Rightarrow> Returned (EnterValidFutureDate, s, [])
         | Returned (Some v) \<Rightarrow> schedule_prompt_or_act env (store s data EventDate v))) \<and>
   process_update_field_input env NewDate text d =
     (case accept_date (e_parse_future env) (e_now env) (strip text) of
        Raised e \<Rightarrow> Raised e
      | Returned None \<Rightarrow> Returned (Inl UpdateEnterValidFutureDate)
      | Returned (Some v) \<Rightarrow> Returned (Inr (d(NewDate \<mapsto> Some v))))"
proof (intro conjI allI impI)
  show "(\<exists>v. accept_date (e_parse_future env) (e_now env) text = Returned (Some v)) =
      (\<exists>p. e_parse_future env text = Returned (Some p) \<and>
           date_le (date_of (e_now env)) (date_of p))"
    by (rule accept_date_Some_iff)
next
  fix p assume "e_parse_future env text = Returned (Some p) \<and>
        date_le (date_of (e_now env)) (date_of p)"
  then show "accept_date (e_parse_future env) (e_now env) text = Returned (Some (strftime_Ymd p))"
    by (simp add: accept_date_accepts)
next
  fix p show "is_iso_date (strftime_Ymd p)" by (rule is_iso_date_strftime)
next
  fix p assume "valid_datetime p"
  then show "iso_fields (strftime_Ymd p) = date_of p" by (rule iso_fields_strftime)
next
  fix p assume "e_parse_future env ''yesterday'' = Returned (Some p) \<and>
        \<not> date_le (date_of (e_now env)) (date_of p)"
  then show "accept_date (e_parse_future env) (e_now env) ''yesterday'' = Returned None"
    by (simp add: accept_date_rejects)
next
  fix p assume "e_parse_future env ''today'' = Returned (Some p) \<and> date_of p = date_of (e_now env)"
  then show "accept_date (e_parse_future env) (e_now env) ''today'' =
          Returned (Some (strftime_Ymd p))"
    by (simp add: accept_date_accepts)
next
  assume "s_waiting_for s = Some EventDate"
  then show "schedule_flow env s data text =
        (case accept_date (e_parse_future env) (e_now env) text of
           Raised e \<Rightarrow> Raised e
         | Returned None \<Rightarrow> Returned (EnterValidFutureDate, s, [])
         | Returned (Some v) \<Rightarrow> schedule_prompt_or_act env (store s data EventDate v))"
    by (rule schedule_flow_date)
next
  show "process_update_field_input env NewDate text d =
     (case accept_date (e_parse_future env) (e_now env) (strip text) of
        Raised e \<Rightarrow> Raised e
      | Returned None \<Rightarrow> Returned (Inl UpdateEnterValidFutureDate)
      | Returned (Some v) \<Rightarrow> Returned (Inr (d(NewDate \<mapsto> Some v))))"
    by (rule process_update_date)
qed

theorem C5_date_validation_witness:
  "accept_date sample_parser sample_now ''yesterday'' = Returned None \<and>
   accept_date sample_parser sample_now ''today'' = Returned (Some ''2026-11-03'') \<and>
   is_iso_date ''2026-11-03'' \<and> iso_fields ''2026-11-03'' = (2026, 11, 3) \<and>
   schedule_flow (sample_env ''Team Sync'')
     (session_with Schedule Map.empty (Some EventDate)) Map.empty ''yesterday'' =
     Returned (EnterValidFutureDate, session_with Schedule Map.empty (Some EventDate), [])"
proof -
  let ?env = "sample_env ''Team Sync''"
  let ?s = "session_with Schedule Map.empty (Some EventDate)"
  have y: "e_parse_future ?env ''yesterday'' = Returned (Some (at_time 2026 11 2 9 0 None)) \<and>
        \<not> date_le (date_of (e_now ?env)) (date_of (at_time 2026 11 2 9 0 None))"
    by (simp add: sample_parser_def sample_now_def at_time_def date_of_def)
  have t: "e_parse_future ?env ''today'' = Returned (Some (at_time 2026 11 3 9 0 None)) \<and>
        date_of (at_time 2026 11 3 9 0 None) = date_of (e_now ?env)"
    by (simp add: sample_parser_def sample_now_def at_time_def date_of_def)
  have t': "e_parse_future ?env ''today'' = Returned (Some (at_time 2026 11 3 9 0 None)) \<and>
        date_le (date_of (e_now ?env)) (date_of (at_time 2026 11 3 9 0 None))"
    by (simp add: sample_parser_def sample_now_def at_time_def date_of_def)
  have v: "valid_datetime (at_time 2026 11 3 9 0 None)"
    by (simp add: valid_datetime_def at_time_def)
  have w: "s_waiting_for ?s = Some EventDate"
    by (simp add: session_with_def)
  have f: "strftime_Ymd (at_time 2026 11 3 9 0 None) = ''2026-11-03''"
    by code_simp
  have d: "date_of (at_time 2026 11 3 9 0 None) = (2026, 11, 3)"
    by (simp add: date_of_def at_time_def)
  note c5 = C5_date_validation [of ?env "''today''" ?s Map.empty Map.empty]
  note c5y = C5_date_validation [of ?env "''yesterday''" ?s Map.empty Map.empty]
  have 1: "accept_date sample_parser sample_now ''yesterday'' = Returned None"
    using c5 y by auto
  have 2: "accept_date sample_parser sample_now ''today'' = Returned (Some ''2026-11-03'')"
    using c5 t f by auto
  have 3: "is_iso_date ''2026-11-03'' \<and> iso_fields ''2026-11-03'' = (2026, 11, 3)"
    using c5 t' v f d by auto
  have 4: "schedule_flow ?env ?s Map.empty ''yesterday'' = Returned (EnterValidFutureDate, ?s, [])"
    using c5y w 1 by simp
  show ?thesis using 1 2 3 4 by simp
qed

subsection \<open>parse_datetime\<close>


lemma plus_one_day_tz: "plus_one_day d = Returned d' \<Longrightarrow> dt_tz d' = dt_tz d"
  by (auto simp: plus_one_day_def split: if_splits)

lemma plus_one_hour_tz: "plus_one_hour d = Returned d' \<Longrightarrow> dt_tz d' = dt_tz d"
  by (auto simp: plus_one_hour_def plus_one_day_def split: if_splits)

lemma localize_strip_tz: "localize (strip_tz d) = Returned ((strip_tz d)\<lparr>dt_tz := Some AsiaKolkata\<rparr>)"
  by (simp add: localize_def strip_tz_def)

lemma parse_datetime_try_zone:
  "parse_datetime_try pf pp now date_str time_str = Returned (st, en) \<Longrightarrow>
   dt_tz st = Some AsiaKolkata \<and> dt_tz en = Some AsiaKolkata"
  unfolding parse_datetime_try_def Let_def
  by (auto simp: localize_strip_tz split: outcome.splits)

lemma parse_datetime_except_total:
  assumes "dt_tz now = None" "dt_year now < 9999"
  shows "\<exists>st en. parse_datetime_except now = Returned (st, en) \<and>
           dt_tz st = Some AsiaKolkata \<and> dt_tz en = Some AsiaKolkata \<and>
           dt_hour st = 10 \<and> dt_minute st = 0 \<and> dt_hour en = 11 \<and> dt_minute en = 0 \<and>
           plus_one_day now = Returned (st\<lparr>dt_hour := dt_hour now, dt_minute := dt_minute now,
              dt_second := dt_second now, dt_micro := dt_micro now, dt_tz := None\<rparr>)"
  using assms
  by (auto simp: parse_datetime_except_def plus_one_day_def plus_one_hour_def at_ten_def
      localize_def)

lemma parse_datetime_total:
  assumes "dt_tz now = None" "dt_year now < 9999"
  shows "\<exists>st en. parse_datetime pf pp now date_str time_str = Returned (st, en) \<and>
           dt_tz st = Some AsiaKolkata \<and> dt_tz en = Some AsiaKolkata"
proof (cases "parse_datetime_try pf pp now date_str time_str")
  case (Raised e)
  then show ?thesis
    using parse_datetime_except_total [OF assms] by (auto simp: parse_datetime_def)
next
  case (Returned r)
  then show ?thesis
    using parse_datetime_try_zone [of pf pp now date_str time_str "fst r" "snd r"]
    by (cases r) (auto simp: parse_datetime_def)
qed


text \<open>
  C10. parse_datetime returns for every pair of strings (lemma \<open>parse_datetime_total\<close>),
  but the end that it computes from a lone start time is not always one hour after the
  start. For the date \<open>2026-11-04\<close> and the time \<open>11:30 pm\<close> the start is 23:30 on
  4 November; one hour later is 00:30 on 5 November; the code formats that as
  \<open>12:30 AM\<close> and reads it back against the date of the start, so the end it returns is
  00:30 on 4 November, twenty-three hours before the start.
\<close>

theorem C10_end_before_start:
  "parse_datetime sample_parser sample_parser sample_now ''2026-11-04'' ''11:30 pm'' =
     Returned (at_time 2026 11 4 23 30 (Some AsiaKolkata),
               at_time 2026 11 4 0 30 (Some AsiaKolkata)) \<and>
   plus_one_hour (at_time 2026 11 4 23 30 (Some AsiaKolkata)) =
     Returned (at_time 2026 11 5 0 30 (Some AsiaKolkata))"
  by code_simp


subsection \<open>Deleting an event that is already gone\<close>

lemma delete_event_with_sync_gone:
  "get_event_by_name (cal_search_listing cal) event_name = Some ev \<Longrightarrow>
   cal_delete cal (ev_id ev) = Raised error_msg \<Longrightarrow> contains error_msg ''404'' \<Longrightarrow>
   fst (delete_event_with_sync cal mail user_email scheduled event_name) =
     (False, AlreadyDeleted event_name)"
  by (simp add: delete_event_with_sync_def Let_def)

lemma delete_event_gone:
  "get_event_by_name (cal_search_listing cal) event_name = Some ev \<Longrightarrow>
   cal_delete cal (ev_id ev) = Raised error_msg \<Longrightarrow> contains error_msg ''404'' \<Longrightarrow>
   fst (delete_event cal mail user_email scheduled event_name) = True"
  by (simp add: delete_event_def Let_def)

text \<open>
  C3. The claim asks that a delete whose calendar call answers 404 (the event is already
  gone) is reported as a success. delete_event of calenderinternal.py does so;
  delete_event_with_sync of app.py, which the chat route calls, returns
  \<open>(False, "Event ... was already deleted or not found")\<close>, and the route sends that as
  a failure.
\<close>

theorem C3_gone_event_reported_as_failure:
  "fst (delete_event_with_sync (gone_calendar ''Team Sync'') sample_mail
          (Some ''me@example.com'') None ''Team Sync'') =
     (False, AlreadyDeleted ''Team Sync'') \<and>
   fst (chat_route (gone_env ''Team Sync'')
          (session_with Delete [EventName \<mapsto> Some ''Team Sync''] None) ''go ahead'') =
     ActionFailed (AlreadyDeleted ''Team Sync'') \<and>
   fst (delete_event (gone_calendar ''Team Sync'') sample_mail ''me@example.com'' None
          ''Team Sync'') = True"
  by code_simp


subsection \<open>Suggestions for an event that is not found\<close>

lemma collect_all_raised:
  "xs \<noteq> [] \<Longrightarrow> \<forall>x\<in>set xs. f x = Raised e \<Longrightarrow> collect (map f xs) = Raised e"
  by (cases xs) simp_all

lemma suggestion_has_no_summary: "dict_item (suggestion_of n e) ''summary'' = Raised (key_error ''summary'')"
  by (simp add: dict_item_def suggestion_of_def)

lemma suggest_similar_events_shape:
  "d \<in> set (suggest_similar_events listing n) \<Longrightarrow> \<exists>e. d = suggestion_of n e"
  by (auto simp: suggest_similar_events_def Let_def split: outcome.splits if_splits
      dest!: in_set_takeD)

lemma suggestion_summaries_raise:
  assumes "set ds \<subseteq> set (suggest_similar_events listing n)" "ds \<noteq> []"
  shows "suggestion_summaries ds = Raised (key_error ''summary'')"
proof -
  have "\<forall>d\<in>set ds. dict_item d ''summary'' = Raised (key_error ''summary'')"
    using assms(1) suggest_similar_events_shape suggestion_has_no_summary by blast
  then have "collect (map (\<lambda>s. dict_item s ''summary'') ds) = Raised (key_error ''summary'')"
    using assms(2) by (rule collect_all_raised [rotated])
  then show ?thesis by (simp add: suggestion_summaries_def)
qed

lemma length_suggest_similar_events: "length (suggest_similar_events listing n) \<le> 3"
  by (simp add: suggest_similar_events_def Let_def split: outcome.splits)

lemma sorted_suggest_similar_events:
  "sorted (map (\<lambda>d. - overlap_score d) (suggest_similar_events listing n))"
  by (auto simp: suggest_similar_events_def Let_def take_map [symmetric] sorted_wrt_take
      split: outcome.splits)

lemma update_not_found_with_suggestions:
  assumes "get_event_by_name (cal_search_listing cal) n = None"
    and "suggest_similar_events (cal_suggest_listing cal) n \<noteq> []"
  shows "update_event_with_sync cal mail pf pp now user_email scheduled n new_date new_time =
           ((False, UnexpectedUpdateError (key_error ''summary'')), [], scheduled)"
proof -
  have "suggestion_summaries (take 3 (suggest_similar_events (cal_suggest_listing cal) n)) =
          Raised (key_error ''summary'')"
    using assms(2)
      suggestion_summaries_raise
        [of "take 3 (suggest_similar_events (cal_suggest_listing cal) n)" "cal_suggest_listing cal" n]
    by (auto dest: in_set_takeD)
  then show ?thesis using assms by (simp add: update_event_with_sync_def)
qed

lemma delete_not_found_with_suggestions:
  assumes "get_event_by_name (cal_search_listing cal) n = None"
    and "suggest_similar_events (cal_suggest_listing cal) n \<noteq> []"
  shows "delete_event_with_sync cal mail user_email scheduled n =
           ((False, UnexpectedDeletionError (key_error ''summary'')), [], scheduled)"
proof -
  have "suggestion_summaries (suggest_similar_events (cal_suggest_listing cal) n) =
          Raised (key_error ''summary'')"
    using assms(2)
      suggestion_summaries_raise
        [of "suggest_similar_events (cal_suggest_listing cal) n" "cal_suggest_listing cal" n]
    by auto
  then show ?thesis using assms by (simp add: delete_event_with_sync_def)
qed

lemma not_found_without_suggestions:
  assumes "get_event_by_name (cal_search_listing cal) n = None"
    and "suggest_similar_events (cal_suggest_listing cal) n = []"
  shows "update_event_with_sync cal mail pf pp now user_email scheduled n new_date new_time =
           ((False, NotFound n), [], scheduled)"
    and "delete_event_with_sync cal mail user_email scheduled n =
           ((False, NotFound n), [], scheduled)"
  using assms by (simp_all add: update_event_with_sync_def delete_event_with_sync_def)

text \<open>
  C8. suggest_similar_events does return at most three suggestions, ranked by the number
  of shared words (lemmas \<open>length_suggest_similar_events\<close> and
  \<open>sorted_suggest_similar_events\<close>), under the key \<open>name\<close>. Both executors of app.py
  read the key \<open>summary\<close> from them, which raises KeyError; their own handlers turn it
  into the message \<open>Unexpected error during update: 'summary'\<close> (or \<open>deletion\<close>). So
  whenever there is a suggestion the reply neither reports that the event was not found
  nor lists a name. Here the calendar holds the event \<open>QA sync\<close> and the user asks for
  \<open>qa x\<close>.
\<close>

theorem C8_suggestions_raise_key_error:
  "get_event_by_name (cal_search_listing (sample_calendar ''QA sync'')) ''qa x'' = None \<and>
   map (\<lambda>d. map_of d ''name'')
     (suggest_similar_events (cal_suggest_listing (sample_calendar ''QA sync'')) ''qa x'') =
     [Some (PyStr ''QA sync'')] \<and>
   fst (update_event_with_sync (sample_calendar ''QA sync'') sample_mail sample_parser
          sample_parser sample_now (Some ''me@example.com'') None ''qa x'' ''2026-11-04''
          ''10 am'') =
     (False, UnexpectedUpdateError (key_error ''summary'')) \<and>
   fst (delete_event_with_sync (sample_calendar ''QA sync'') sample_mail
          (Some ''me@example.com'') None ''qa x'') =
     (False, UnexpectedDeletionError (key_error ''summary'')) \<and>
   fst (chat_route (sample_env ''QA sync'')
          (session_with Delete [EventName \<mapsto> Some ''qa x''] None) ''go ahead'') =
     ActionFailed (UnexpectedDeletionError (key_error ''summary''))"
  by code_simp

subsection \<open>Updating an event whose attendees are busy\<close>

lemma other_attendees_known:
  "truthy user_email \<Longrightarrow>
   other_attendees (ev_attendees e) user_email =
     filter (\<lambda>a. lower a \<noteq> lower (get_or_empty user_email)) (attendee_addresses e)"
  by (simp add: other_attendees_def attendee_addresses_def conj_commute split: option.splits)

lemma busy_attendees_known:
  "truthy user_email \<Longrightarrow>
   busy_attendees cal e user_email st en =
     filter (check_participant_calendar_conflicts (cal_conflict_listing cal st en))
       (other_attendees (ev_attendees e) user_email)"
  by (simp add: other_attendees_known busy_attendees_def)

lemma update_event_with_sync_found:
  assumes "get_event_by_name (cal_search_listing cal) event_name = Some e"
    and "parse_datetime pf pp now new_date new_time = Returned (st, en)"
  shows "update_event_with_sync cal mail pf pp now user_email scheduled event_name new_date new_time =
     (let event_summary = (case ev_summary e of None \<Rightarrow> event_name | Some t \<Rightarrow> t);
          others = other_attendees (ev_attendees e) user_email;
          conflicted = filter (check_participant_calendar_conflicts (cal_conflict_listing cal st en)) others
      in if conflicted \<noteq> []
         then ((False, ConflictsDetected), map (\<lambda>a. MailConflict a event_summary) conflicted, scheduled)
         else (case cal_update cal (ev_id e) of
                 Returned u \<Rightarrow>
                   ((True, UpdatedOk event_summary new_date new_time (list_ex (mail_reschedule mail) others)),
                    map (\<lambda>a. MailReschedule a event_summary) others @ [CalendarUpdate (ev_id e)],
                    map_option (reschedule_first (ev_id e) new_date new_time) scheduled)
               | Raised error_msg \<Rightarrow>
                   ((False,
                     (if contains error_msg ''404'' then NoLongerExists event_name
                      else if contains error_msg ''403'' then UpdatePermissionDenied
                      else if contains error_msg ''401'' then AuthenticationError
                      else UpdateFailed error_msg)),
                    map (\<lambda>a. MailReschedule a event_summary) others @ [CalendarUpdate (ev_id e)],
                    scheduled)))"
  using assms by (simp add: update_event_with_sync_def Let_def)

text \<open>
  For a known user, the executor does what the claim says: if an attendee other than the
  user is found busy in the new window, each busy attendee is sent a conflict
  notification, nothing else is done (no call that changes the calendar) and the result
  is the failure \<open>Scheduling conflicts detected\<close>; a call that changes the calendar is
  made only when no such attendee is busy, and then the update call is made.
\<close>

lemma update_aborts_on_conflict:
  assumes "get_event_by_name (cal_search_listing cal) event_name = Some e"
    and "truthy user_email"
    and "parse_datetime pf pp now new_date new_time = Returned (st, en)"
  shows "(busy_attendees cal e user_email st en \<noteq> [] \<longrightarrow>
           update_event_with_sync cal mail pf pp now user_email scheduled event_name new_date new_time =
             ((False, ConflictsDetected),
              map (\<lambda>a. MailConflict a (case ev_summary e of None \<Rightarrow> event_name | Some t \<Rightarrow> t))
                (busy_attendees cal e user_email st en),
              scheduled)) \<and>
         ((\<exists>fx \<in> set (fst (snd (update_event_with_sync cal mail pf pp now user_email scheduled
                                   event_name new_date new_time))). is_mutation fx) \<longrightarrow>
            busy_attendees cal e user_email st en = []) \<and>
         (busy_attendees cal e user_email st en = [] \<longrightarrow>
            CalendarUpdate (ev_id e) \<in>
              set (fst (snd (update_event_with_sync cal mail pf pp now user_email scheduled
                               event_name new_date new_time))))"
proof -
  let ?busy = "busy_attendees cal e user_email st en"
  let ?r = "update_event_with_sync cal mail pf pp now user_email scheduled event_name new_date new_time"
  have b: "?busy = filter (check_participant_calendar_conflicts (cal_conflict_listing cal st en))
                     (other_attendees (ev_attendees e) user_email)"
    using assms(2) by (rule busy_attendees_known)
  note eq = update_event_with_sync_found [OF assms(1,3), of mail user_email scheduled]
  have 1: "?busy \<noteq> [] \<Longrightarrow> ?r = ((False, ConflictsDetected),
              map (\<lambda>a. MailConflict a (case ev_summary e of None \<Rightarrow> event_name | Some t \<Rightarrow> t)) ?busy,
              scheduled)"
    unfolding eq b by (simp add: Let_def)
  have 2: "?busy \<noteq> [] \<Longrightarrow> \<not> (\<exists>fx \<in> set (fst (snd ?r)). is_mutation fx)"
    using 1 by (auto simp: is_mutation_def)
  have 3: "?busy = [] \<Longrightarrow> CalendarUpdate (ev_id e) \<in> set (fst (snd ?r))"
    unfolding eq b by (simp add: Let_def split: outcome.splits)
  show ?thesis using 1 2 3 by blast
qed

text \<open>
  When get_authenticated_user_email returns nothing, the guard \<open>if attendees and
  user_email\<close> skips both loops over the attendees: nobody is checked, nobody is written
  to, and the update call is the only thing that the executor does.
\<close>

lemma update_unknown_user_not_checked:
  assumes "get_event_by_name (cal_search_listing cal) event_name = Some e"
    and "\<not> truthy user_email"
    and "parse_datetime pf pp now new_date new_time = Returned (st, en)"
  shows "fst (snd (update_event_with_sync cal mail pf pp now user_email scheduled event_name
                     new_date new_time)) = [CalendarUpdate (ev_id e)]"
proof -
  have o: "other_attendees (ev_attendees e) user_email = []"
    using assms(2) by (simp add: other_attendees_def split: option.splits)
  show ?thesis
    unfolding update_event_with_sync_found [OF assms(1,3), of mail user_email scheduled] o
    by (simp add: Let_def split: outcome.splits)
qed

text \<open>
  C7. The claim asks that the update aborts whenever an attendee other than the user is
  busy in the new window. The executor of app.py checks the attendees under its comment
  \<open>Check for conflicts with attendees\<close>, but only \<open>if attendees and user_email\<close>:
  when the address of the authenticated user cannot be read, the check is skipped and the
  update call is made, although an attendee is busy. handle_update_workflow of
  calenderinternal.py checks every attendee that has an address. Here the event
  \<open>Team Sync\<close> is found, its attendee \<open>bob@example.com\<close> is busy in the new window,
  and the address of the user is not known: the event is updated and nobody is notified.
  With the address of the user known, the same request aborts and the attendee is
  notified.
\<close>

theorem C7_unknown_user_update_issued:
  "get_event_by_name (cal_search_listing (busy_calendar ''Team Sync'')) ''Team Sync'' =
     Some (sample_event ''evt1'' ''Team Sync'') \<and>
   ev_attendees (sample_event ''evt1'' ''Team Sync'') =
     Some [Some ''me@example.com'', Some ''bob@example.com''] \<and>
   parse_datetime sample_parser sample_parser sample_now ''2026-11-04'' ''10 am'' =
     Returned (at_time 2026 11 4 10 0 (Some AsiaKolkata), at_time 2026 11 4 11 0 (Some AsiaKolkata)) \<and>
   check_participant_calendar_conflicts
     (cal_conflict_listing (busy_calendar ''Team Sync'')
        (at_time 2026 11 4 10 0 (Some AsiaKolkata)) (at_time 2026 11 4 11 0 (Some AsiaKolkata)))
     ''bob@example.com'' \<and>
   update_event_with_sync (busy_calendar ''Team Sync'') sample_mail sample_parser sample_parser
     sample_now None None ''Team Sync'' ''2026-11-04'' ''10 am'' =
     ((True, UpdatedOk ''Team Sync'' ''2026-11-04'' ''10 am'' False), [CalendarUpdate ''evt1''], None) \<and>
   update_event_with_sync (busy_calendar ''Team Sync'') sample_mail sample_parser sample_parser
     sample_now (Some ''me@example.com'') None ''Team Sync'' ''2026-11-04'' ''10 am'' =
     ((False, ConflictsDetected), [MailConflict ''bob@example.com'' ''Team Sync''], None)"
  by code_simp

subsection \<open>The end of the schedule flow\<close>

lemma schedule_prompt_or_act_complete:
  "s_data s = Some details \<Longrightarrow> get_missing_field_prompt details = None \<Longrightarrow>
   schedule_prompt_or_act env s =
     Returned (fst (schedule_complete env (s_scheduled_meetings s) details), empty_session,
               fst (snd (schedule_complete env (s_scheduled_meetings s) details)))"
  by (simp add: schedule_prompt_or_act_def clear_def split: prod.splits)

text \<open>
  C6, as the claim states it, fails when the calendar refuses the insert: the record is
  complete, the participant is free, and yet no event exists afterwards and the reply
  reports a failure.
\<close>

theorem C6_insert_failure_counterexample:
  "get_missing_field_prompt full_record = None \<and>
   parse_datetime sample_parser sample_parser sample_now ''2026-11-04'' ''10 am'' =
     Returned (at_time 2026 11 4 10 0 (Some AsiaKolkata), at_time 2026 11 4 11 0 (Some AsiaKolkata)) \<and>
   \<not> check_participant_calendar_conflicts
        (cal_conflict_listing (failing_calendar ''Team Sync'')
           (at_time 2026 11 4 10 0 (Some AsiaKolkata)) (at_time 2026 11 4 11 0 (Some AsiaKolkata)))
        ''bob@example.com'' \<and>
   fst (chat_route ((sample_env ''Team Sync'')\<lparr>e_calendar := failing_calendar ''Team Sync''\<rparr>)
          (session_with Schedule full_record None) ''please go on'') = CreateEventFailed \<and>
   snd (snd (chat_route ((sample_env ''Team Sync'')\<lparr>e_calendar := failing_calendar ''Team Sync''\<rparr>)
          (session_with Schedule full_record None) ''please go on'')) =
     [CalendarInsert ''Team Sync'' ''bob@example.com'']"
  by code_simp

text \<open>
  C6, amended. For a complete schedule record, when both services are available, the
  participant's address passes validate_email and the window resolves: if the conflict
  check finds the participant busy, one conflict notification is sent to the participant
  and no calendar call is made; otherwise exactly one insert call is made, and the reply
  reports success with the meeting link when the insert returns, and a failure to create
  the event when it raises. The turn ends with the session cleared.
\<close>

theorem C6_schedule_conflict_or_create:
  assumes "get_missing_field_prompt details = None"
    and "services_have env [''gmail'', ''calendar'']"
    and "validate_email (field_value details ParticipantEmail)"
    and "parse_datetime (e_parse_future env) (e_parse_plain env) (e_now env)
           (field_value details EventDate) (field_value details EventTime) =
           Returned (start_time, end_time)"
  shows "(check_participant_calendar_conflicts
            (cal_conflict_listing (e_calendar env) start_time end_time)
            (field_value details ParticipantEmail) \<longrightarrow>
          schedule_complete env scheduled details =
            (ParticipantConflict (field_value details ParticipantEmail),
             [MailConflict (field_value details ParticipantEmail) (field_value details EventName)],
             scheduled)) \<and>
         (\<not> check_participant_calendar_conflicts
              (cal_conflict_listing (e_calendar env) start_time end_time)
              (field_value details ParticipantEmail) \<longrightarrow>
          fst (snd (schedule_complete env scheduled details)) =
            [CalendarInsert (field_value details EventName) (field_value details ParticipantEmail)] \<and>
          (\<forall>event_id link.
             cal_insert (e_calendar env) (field_value details EventName) start_time end_time
               (field_value details ParticipantEmail) = Returned (event_id, link) \<longrightarrow>
             fst (schedule_complete env scheduled details) =
               ScheduledOk (field_value details EventName) (field_value details ParticipantEmail) link) \<and>
          (\<forall>e.
             cal_insert (e_calendar env) (field_value details EventName) start_time end_time
               (field_value details ParticipantEmail) = Raised e \<longrightarrow>
             schedule_complete env scheduled details =
               (CreateEventFailed,
                [CalendarInsert (field_value details EventName) (field_value details ParticipantEmail)],
                scheduled))) \<and>
         (s_data s = Some details \<longrightarrow>
          schedule_prompt_or_act env s =
            Returned (fst (schedule_complete env (s_scheduled_meetings s) details), empty_session,
                      fst (snd (schedule_complete env (s_scheduled_meetings s) details))))"
  using assms
  by (auto simp: schedule_complete_def Let_def schedule_prompt_or_act_complete
      split: outcome.splits prod.splits)

theorem C6_schedule_conflict_or_create_witness:
  "schedule_complete (sample_env ''Team Sync'') None full_record =
     (ScheduledOk ''Team Sync'' ''bob@example.com'' ''https://meet.example/abc'',
      [CalendarInsert ''Team Sync'' ''bob@example.com''],
      Some [\<lparr>m_participant_email = ''bob@example.com'', m_event_name = ''Team Sync'',
             m_event_date = ''2026-11-04'', m_event_time = ''10 am'',
             m_meeting_link = ''https://meet.example/abc'', m_calendar_event_id = Some ''evt2''\<rparr>]) \<and>
   schedule_complete ((sample_env ''Team Sync'')\<lparr>e_calendar := busy_calendar ''Team Sync''\<rparr>)
     None full_record =
     (ParticipantConflict ''bob@example.com'', [MailConflict ''bob@example.com'' ''Team Sync''], None)"
proof -
  let ?env = "sample_env ''Team Sync''"
  let ?busy = "(sample_env ''Team Sync'')\<lparr>e_calendar := busy_calendar ''Team Sync''\<rparr>"
  let ?st = "at_time 2026 11 4 10 0 (Some AsiaKolkata)"
  let ?en = "at_time 2026 11 4 11 0 (Some AsiaKolkata)"
  have c: "get_missing_field_prompt full_record = None" by code_simp
  have fv: "field_value full_record ParticipantEmail = ''bob@example.com''"
    "field_value full_record EventName = ''Team Sync''"
    "field_value full_record EventDate = ''2026-11-04''"
    "field_value full_record EventTime = ''10 am''"
    by (simp_all add: field_value_def dict_get_def full_record_def)
  have sv: "services_have ?env [''gmail'', ''calendar'']" "services_have ?busy [''gmail'', ''calendar'']"
    by (simp_all add: services_have_def sample_env_def)
  have ve: "validate_email (field_value full_record ParticipantEmail)"
    unfolding fv by code_simp
  have w: "parse_datetime sample_parser sample_parser sample_now ''2026-11-04'' ''10 am'' =
             Returned (?st, ?en)"
    by code_simp
  have w1: "parse_datetime (e_parse_future ?env) (e_parse_plain ?env) (e_now ?env)
           (field_value full_record EventDate) (field_value full_record EventTime) = Returned (?st, ?en)"
    unfolding fv using w by simp
  have w2: "parse_datetime (e_parse_future ?busy) (e_parse_plain ?busy) (e_now ?busy)
           (field_value full_record EventDate) (field_value full_record EventTime) = Returned (?st, ?en)"
    unfolding fv using w by (simp add: sample_env_def)
  have free: "\<not> check_participant_calendar_conflicts
                 (cal_conflict_listing (e_calendar ?env) ?st ?en) ''bob@example.com''"
    by code_simp
  have busy: "check_participant_calendar_conflicts
                 (cal_conflict_listing (e_calendar ?busy) ?st ?en) ''bob@example.com''"
    by code_simp
  have ins: "cal_insert (e_calendar ?env) ''Team Sync'' ?st ?en ''bob@example.com'' =
               Returned (Some ''evt2'', ''https://meet.example/abc'')"
    by (simp add: sample_calendar_def)
  have tr: "snd (snd (schedule_complete ?env None full_record)) =
      Some [\<lparr>m_participant_email = ''bob@example.com'', m_event_name = ''Team Sync'',
             m_event_date = ''2026-11-04'', m_event_time = ''10 am'',
             m_meeting_link = ''https://meet.example/abc'', m_calendar_event_id = Some ''evt2''\<rparr>]"
    by code_simp
  have a: "fst (schedule_complete ?env None full_record) =
             ScheduledOk ''Team Sync'' ''bob@example.com'' ''https://meet.example/abc'' \<and>
           fst (snd (schedule_complete ?env None full_record)) =
             [CalendarInsert ''Team Sync'' ''bob@example.com'']"
    using C6_schedule_conflict_or_create [OF c sv(1) ve w1, of None empty_session] free ins
    unfolding fv by simp
  have b: "schedule_complete ?busy None full_record =
     (ParticipantConflict ''bob@example.com'', [MailConflict ''bob@example.com'' ''Team Sync''], None)"
    using C6_schedule_conflict_or_create [OF c sv(2) ve w2, of None empty_session] busy
    unfolding fv by simp
  show ?thesis using a b tr by (cases "schedule_complete ?env None full_record") simp
qed

subsection \<open>The first message of a conversation\<close>

lemma first_matching_spec_order:
  "first_matching spec_order u =
     (if is_schedule_intent u then Some Schedule
      else if is_update_intent u then Some Update
      else if is_delete_intent u then Some Delete else None)"
  by (simp add: first_matching_def spec_order_def)

lemma first_matching_api_order:
  "first_matching api_order u =
     (if is_update_intent u then Some Update
      else if is_delete_intent u then Some Delete
      else if is_schedule_intent u then Some Schedule else None)"
  by (simp add: first_matching_def api_order_def)

lemma detect_intent_Inr:
  "detect_intent env s u = Returned (Inr s') \<Longrightarrow>
   s_intent s' = first_matching spec_order u \<and> s_intent s' \<noteq> None"
  by (auto simp: detect_intent_def first_matching_spec_order
      split: if_splits outcome.splits prod.splits)

lemma process_meeting_requests_from_chat_fields:
  "process_meeting_requests_from_chat env s = (r, s', fx) \<Longrightarrow>
   (\<exists>b. r = MeetingRequestsProcessed b) \<and> s_intent s' = s_intent s \<and>
   s_waiting_for s' = s_waiting_for s \<and> s_data s' = s_data s \<and>
   s_messages s' = s_messages s \<and> s_meeting_requests s' = s_meeting_requests s"
  by (auto simp: process_meeting_requests_from_chat_def Let_def
      split: if_splits sum.splits prod.splits)

lemma detect_intent_Inl_cases:
  "detect_intent env s u = Returned (Inl (r, s', fx)) \<Longrightarrow>
   first_matching spec_order u = None \<and>
   ((r, s', fx) = (ChatText, s, []) \<or>
    contains (lower u) ''yes'' \<and>
    (case s_meeting_requests s of None \<Rightarrow> False | Some rs \<Rightarrow> rs \<noteq> []) \<and>
    process_meeting_requests_from_chat env s = (r, s', fx))"
  by (auto simp: detect_intent_def first_matching_spec_order
      split: if_splits outcome.splits)

lemma detect_intent_Inl:
  "detect_intent env s u = Returned (Inl (r, s', fx)) \<Longrightarrow>
   first_matching spec_order u = None \<and> s_intent s' = s_intent s \<and> free_form_reply r"
  using process_meeting_requests_from_chat_fields [of env s r s' fx]
  by (auto simp: free_form_reply_def dest!: detect_intent_Inl_cases)

lemma detect_intent_none:
  "first_matching spec_order u = None \<Longrightarrow> \<exists>r s' fx. detect_intent env s u = Returned (Inl (r, s', fx))"
  by (cases "process_meeting_requests_from_chat env s")
     (auto simp: detect_intent_def first_matching_spec_order split: if_splits)

lemma detect_intent_some:
  "first_matching spec_order u = Some i \<Longrightarrow>
   (\<exists>s'. detect_intent env s u = Returned (Inr s')) \<or> (\<exists>e. detect_intent env s u = Raised e)"
  by (auto simp: detect_intent_def first_matching_spec_order
      split: if_splits outcome.splits prod.splits)

lemma ensure_defaults_intent [simp]: "s_intent (ensure_defaults s) = s_intent s"
  by (simp add: ensure_defaults_def)

lemma email_branch_reply:
  "email_branch env s u = (r, s', fx) \<Longrightarrow> email_reply r \<and> s_intent s' = s_intent s \<and> fx = []"
  by (auto simp: email_branch_def email_reply_def split: if_splits email_run.splits)

lemma chat_turn_email:
  "is_email_processing_intent u \<Longrightarrow> s_intent s = None \<Longrightarrow>
   chat_turn env s u = Returned (email_branch env (ensure_defaults s) u)"
  by (simp add: chat_turn_def Let_def)

lemma chat_turn_detect:
  "\<not> is_email_processing_intent u \<Longrightarrow> s_intent s = None \<Longrightarrow>
   chat_turn env s u =
     (case detect_intent env (ensure_defaults s) u of
        Raised e \<Rightarrow> Raised e
      | Returned (Inl r) \<Rightarrow> Returned r
      | Returned (Inr s') \<Rightarrow>
          (case s_intent s' of
             None \<Rightarrow> Raised (key_error ''intent'')
           | Some Schedule \<Rightarrow> schedule_flow env s' (case s_data s of None \<Rightarrow> Map.empty | Some d \<Rightarrow> d) u
           | Some Update \<Rightarrow> update_flow env s' u
           | Some Delete \<Rightarrow> delete_flow env s' u))"
  by (simp add: chat_turn_def Let_def)

text \<open>
  C4, as the claim states it, fails on the \<open>/api/chat\<close> route of calenderinternal.py,
  one of the two routes that the claim is drawn from: that route tries the update
  keywords first. The message \<open>update the meeting\<close> contains a schedule keyword
  (\<open>meet\<close>), so the order of the claim makes it a schedule request; the route makes it
  an update request.
\<close>

theorem C4_order_counterexample:
  "first_matching spec_order ''update the meeting'' = Some Schedule \<and>
   api_chat_intent ''update the meeting'' = Some Update"
  by code_simp

text \<open>
  C4, amended. In the \<open>/chat\<close> route of app.py, for a message that arrives while no
  intent is active: an explicit email-processing request is answered by the email branch
  and leaves the intent unset; otherwise the keyword classifiers run in the order
  schedule, update, delete, and the first that matches sets the intent; if none matches
  the intent stays unset and the message is answered as free-form conversation (or, for a
  \<open>yes\<close> while meeting requests are pending, by processing those requests). The
  \<open>/api/chat\<close> route of calenderinternal.py has no email classifier and runs the
  keyword classifiers in the order update, delete, schedule.
\<close>

theorem C4_classification_order:
  "(is_email_processing_intent u \<and> s_intent s = None \<longrightarrow>
      (\<exists>r s' fx. chat_turn env s u = Returned (r, s', fx) \<and> email_reply r \<and> s_intent s' = None)) \<and>
   (\<not> is_email_processing_intent u \<and> s_intent s = None \<longrightarrow>
      (\<forall>r s' fx. detect_intent env (ensure_defaults s) u = Returned (Inl (r, s', fx)) \<longrightarrow>
         chat_turn env s u = Returned (r, s', fx))) \<and>
   (\<forall>s'. detect_intent env s u = Returned (Inr s') \<longrightarrow>
      s_intent s' = first_matching spec_order u \<and> s_intent s' \<noteq> None) \<and>
   (\<forall>r s' fx. detect_intent env s u = Returned (Inl (r, s', fx)) \<longrightarrow>
      first_matching spec_order u = None \<and> s_intent s' = s_intent s \<and> free_form_reply r) \<and>
   (first_matching spec_order u = None \<longrightarrow>
      (\<exists>r s' fx. detect_intent env s u = Returned (Inl (r, s', fx)))) \<and>
   api_chat_intent u = first_matching api_order u"
proof (intro conjI allI impI)
  assume a: "is_email_processing_intent u \<and> s_intent s = None"
  obtain r s' fx where e: "email_branch env (ensure_defaults s) u = (r, s', fx)"
    by (cases "email_branch env (ensure_defaults s) u") auto
  from email_branch_reply [OF e] a have "email_reply r \<and> s_intent s' = None" by simp
  moreover from a e have "chat_turn env s u = Returned (r, s', fx)"
    by (simp add: chat_turn_email)
  ultimately show "\<exists>r s' fx. chat_turn env s u = Returned (r, s', fx) \<and> email_reply r \<and> s_intent s' = None"
    by blast
next
  fix r s' fx
  assume "\<not> is_email_processing_intent u \<and> s_intent s = None"
    and "detect_intent env (ensure_defaults s) u = Returned (Inl (r, s', fx))"
  then show "chat_turn env s u = Returned (r, s', fx)"
    by (simp add: chat_turn_detect)
next
  fix s' assume "detect_intent env s u = Returned (Inr s')"
  then show "s_intent s' = first_matching spec_order u" "s_intent s' \<noteq> None"
    using detect_intent_Inr by blast+
next
  fix r s' fx assume "detect_intent env s u = Returned (Inl (r, s', fx))"
  then show "first_matching spec_order u = None" "s_intent s' = s_intent s" "free_form_reply r"
    using detect_intent_Inl by blast+
next
  assume "first_matching spec_order u = None"
  then show "\<exists>r s' fx. detect_intent env s u = Returned (Inl (r, s', fx))"
    by (rule detect_intent_none)
next
  show "api_chat_intent u = first_matching api_order u"
    by (simp add: api_chat_intent_def first_matching_api_order)
qed

theorem C4_classification_order_witness:
  "s_intent (fst (snd (chat_route (sample_env ''Team Sync'') empty_session ''check my inbox''))) = None \<and>
   (\<exists>s'. detect_intent (sample_env ''Team Sync'') empty_session ''update the meeting'' = Returned (Inr s') \<and>
         s_intent s' = Some Schedule) \<and>
   (\<exists>s'. detect_intent (sample_env ''Team Sync'') empty_session ''please postpone it'' = Returned (Inr s') \<and>
         s_intent s' = Some Update) \<and>
   (\<exists>s'. detect_intent (sample_env ''Team Sync'') empty_session ''cancel it'' = Returned (Inr s') \<and>
         s_intent s' = Some Delete) \<and>
   (\<exists>r s' fx. detect_intent (sample_env ''Team Sync'') empty_session ''hello there'' =
         Returned (Inl (r, s', fx)) \<and> s_intent s' = None \<and> free_form_reply r)"
proof -
  let ?env = "sample_env ''Team Sync''"
  note c4 = C4_classification_order [of _ empty_session ?env]
  have i0: "s_intent empty_session = None" by (simp add: empty_session_def)
  have e: "is_email_processing_intent ''check my inbox''" by code_simp
  have st: "strip ''check my inbox'' = ''check my inbox''"
    "correct_schedule_spelling ''check my inbox'' = ''check my inbox''" by code_simp+
  from c4 [of "''check my inbox''"] e i0
  obtain r s' fx where "chat_turn ?env empty_session ''check my inbox'' = Returned (r, s', fx)"
    "s_intent s' = None" by blast
  then have 1: "s_intent (fst (snd (chat_route ?env empty_session ''check my inbox''))) = None"
    by (simp add: chat_route_def st Let_def)
  have m: "first_matching spec_order ''update the meeting'' = Some Schedule"
    "first_matching spec_order ''please postpone it'' = Some Update"
    "first_matching spec_order ''cancel it'' = Some Delete"
    "first_matching spec_order ''hello there'' = None"
    by code_simp+
  have nr: "\<And>u. extract_event_details ?env u \<noteq> Raised e" for e
    by (simp add: extract_event_details_def plus_one_day_def sample_now_def at_time_def
        days_in_month_def split: outcome.splits)
  have d: "\<And>u i. first_matching spec_order u = Some i \<Longrightarrow>
             \<exists>s'. detect_intent ?env empty_session u = Returned (Inr s') \<and> s_intent s' = Some i"
  proof -
    fix u i assume f: "first_matching spec_order u = Some i"
    have "\<exists>s'. detect_intent ?env empty_session u = Returned (Inr s')"
      using f nr
      by (auto simp: detect_intent_def first_matching_spec_order split: if_splits outcome.splits)
    then obtain s' where s': "detect_intent ?env empty_session u = Returned (Inr s')" ..
    with c4 [of u] f have "s_intent s' = Some i" by simp
    with s' show "\<exists>s'. detect_intent ?env empty_session u = Returned (Inr s') \<and> s_intent s' = Some i"
      by blast
  qed
  from c4 [of "''hello there''"] m(4) i0
  have 5: "\<exists>r s' fx. detect_intent ?env empty_session ''hello there'' =
         Returned (Inl (r, s', fx)) \<and> s_intent s' = None \<and> free_form_reply r"
    by metis
  show ?thesis using 1 d [OF m(1)] d [OF m(2)] d [OF m(3)] 5 by blast
qed

subsection \<open>Terminal replies and the session\<close>

lemma finish_action_clears: "finish_action env s result = (r, s', fx) \<Longrightarrow> s' = empty_session \<and> terminal r"
  by (auto simp: finish_action_def clear_def split: prod.splits if_splits)

lemma schedule_complete_terminal: "schedule_complete env scheduled d = (r, fx, sched') \<Longrightarrow> terminal r"
  by (auto simp: schedule_complete_def Let_def split: if_splits outcome.splits prod.splits)

lemma schedule_prompt_or_act_cleared:
  "schedule_prompt_or_act env s = Returned (r, s', fx) \<Longrightarrow> terminal r \<Longrightarrow> s' = empty_session"
  by (auto simp: schedule_prompt_or_act_def clear_def split: option.splits prod.splits)

lemma schedule_flow_cleared:
  "schedule_flow env s data u = Returned (r, s', fx) \<Longrightarrow> terminal r \<Longrightarrow> s' = empty_session"
  by (auto simp: schedule_flow_def dest: schedule_prompt_or_act_cleared
      split: option.splits outcome.splits sum.splits if_splits)

lemma update_prompt_or_act_cleared:
  "update_prompt_or_act env s = Returned (r, s', fx) \<Longrightarrow> terminal r \<Longrightarrow> s' = empty_session"
  by (auto simp: update_prompt_or_act_def clear_def dest: finish_action_clears
      split: option.splits if_splits)

lemma process_update_field_input_reply:
  "process_update_field_input env f u d = Returned (Inl r) \<Longrightarrow> \<not> terminal r"
  by (auto simp: process_update_field_input_def Let_def
      split: if_splits outcome.splits option.splits)

lemma update_flow_cleared:
  "update_flow env s u = Returned (r, s', fx) \<Longrightarrow> terminal r \<Longrightarrow> s' = empty_session"
  by (auto simp: update_flow_def
      dest: update_prompt_or_act_cleared process_update_field_input_reply
      split: option.splits outcome.splits sum.splits)

lemma ask_which_event_cleared:
  "ask_which_event env s = (r, s', fx) \<Longrightarrow> terminal r \<Longrightarrow> s' = empty_session"
  by (auto simp: ask_which_event_def Let_def clear_def
      split: if_splits outcome.splits list.splits)

lemma delete_act_cleared: "delete_act env s d = (r, s', fx) \<Longrightarrow> s' = empty_session"
  by (auto simp: delete_act_def clear_def dest: finish_action_clears split: if_splits)

lemma delete_flow_cleared:
  "delete_flow env s u = Returned (r, s', fx) \<Longrightarrow> terminal r \<Longrightarrow> s' = empty_session"
  by (auto simp: delete_flow_def Let_def
      dest: ask_which_event_cleared delete_act_cleared
      split: option.splits sum.splits if_splits prod.splits outcome.splits)

lemma email_branch_not_terminal: "email_branch env s u = (r, s', fx) \<Longrightarrow> \<not> terminal r"
  by (auto simp: email_branch_def split: if_splits email_run.splits)

lemma ensure_defaults_meeting_requests [simp]:
  "s_meeting_requests (ensure_defaults s) = s_meeting_requests s"
  by (simp add: ensure_defaults_def)

lemma detect_intent_terminal:
  "detect_intent env s u = Returned (Inl (r, s', fx)) \<Longrightarrow> terminal r \<Longrightarrow>
   first_matching spec_order u = None \<and> contains (lower u) ''yes'' \<and>
   (case s_meeting_requests s of None \<Rightarrow> False | Some rs \<Rightarrow> rs \<noteq> [])"
  by (auto dest!: detect_intent_Inl_cases)

lemma flows_cleared:
  "(case i of
      Schedule \<Rightarrow> schedule_flow env s data u
    | Update \<Rightarrow> update_flow env s u
    | Delete \<Rightarrow> delete_flow env s u) = Returned (r, s', fx) \<Longrightarrow>
   terminal r \<Longrightarrow> s' = empty_session"
  by (cases i) (auto dest: schedule_flow_cleared update_flow_cleared delete_flow_cleared)

lemma chat_turn_cleared:
  assumes "chat_turn env s u = Returned (r, s', fx)" "terminal r"
  shows "s' = empty_session \<or> answers_pending_requests s u"
proof (cases "s_intent s")
  case None
  show ?thesis
  proof (cases "is_email_processing_intent u")
    case True
    with None assms(1) have "email_branch env (ensure_defaults s) u = (r, s', fx)"
      by (simp add: chat_turn_email)
    with assms(2) show ?thesis by (auto dest: email_branch_not_terminal)
  next
    case False
    note ct = chat_turn_detect [OF False None, of env]
    show ?thesis
    proof (cases "detect_intent env (ensure_defaults s) u")
      case (Raised e)
      with ct assms(1) show ?thesis by simp
    next
      case (Returned x)
      show ?thesis
      proof (cases x)
        case (Inl t)
        with Returned ct assms(1)
        have "detect_intent env (ensure_defaults s) u = Returned (Inl (r, s', fx))" by simp
        from detect_intent_terminal [OF this assms(2)] None False
        show ?thesis by (simp add: answers_pending_requests_def)
      next
        case (Inr s1)
        with Returned have d: "detect_intent env (ensure_defaults s) u = Returned (Inr s1)"
          by simp
        from detect_intent_Inr [OF d] have "s_intent s1 \<noteq> None" by blast
        then obtain i where i: "s_intent s1 = Some i" by auto
        from d ct assms(1) i have
          "(case i of
              Schedule \<Rightarrow> schedule_flow env s1 (case s_data s of None \<Rightarrow> Map.empty | Some d \<Rightarrow> d) u
            | Update \<Rightarrow> update_flow env s1 u
            | Delete \<Rightarrow> delete_flow env s1 u) = Returned (r, s', fx)"
          by simp
        from flows_cleared [OF this assms(2)] show ?thesis by simp
      qed
    qed
  qed
next
  case (Some i)
  with assms(1) have
    "(case i of
        Schedule \<Rightarrow> schedule_flow env (ensure_defaults s) (case s_data s of None \<Rightarrow> Map.empty | Some d \<Rightarrow> d) u
      | Update \<Rightarrow> update_flow env (ensure_defaults s) u
      | Delete \<Rightarrow> delete_flow env (ensure_defaults s) u) = Returned (r, s', fx)"
    by (simp add: chat_turn_def Let_def)
  from flows_cleared [OF this assms(2)] show ?thesis by simp
qed

text \<open>
  Every terminal reply comes with the empty session, but for one kind of turn: the answer
  \<open>yes\<close> to pending meeting requests, which process_meeting_requests_from_chat handles.
\<close>

lemma terminal_turn_clears_session:
  "chat_route env s message = (r, s', fx) \<Longrightarrow> terminal r \<Longrightarrow>
   s' = empty_session \<or> answers_pending_requests s (correct_schedule_spelling (strip message))"
  by (auto simp: chat_route_def Let_def clear_def dest: chat_turn_cleared
      split: if_splits outcome.splits)

text \<open>
  On such a turn the reply is the one of process_meeting_requests_from_chat, which is
  terminal, and the pending requests are still in the session after the turn: the session
  is not the empty one.
\<close>

lemma pending_requests_turn_keeps_session:
  assumes "answers_pending_requests s u"
  shows "\<exists>b s' fx. chat_turn env s u = Returned (MeetingRequestsProcessed b, s', fx) \<and>
           s_meeting_requests s' = s_meeting_requests s \<and> s' \<noteq> empty_session"
proof -
  from assms have a: "s_intent s = None" "\<not> is_email_processing_intent u"
    "\<not> is_schedule_intent u" "\<not> is_update_intent u" "\<not> is_delete_intent u"
    "contains (lower u) ''yes''"
    "(case s_meeting_requests s of None \<Rightarrow> False | Some rs \<Rightarrow> rs \<noteq> [])"
    by (auto simp: answers_pending_requests_def first_matching_spec_order split: if_splits)
  obtain r s' fx where p: "process_meeting_requests_from_chat env (ensure_defaults s) = (r, s', fx)"
    by (cases "process_meeting_requests_from_chat env (ensure_defaults s)") auto
  from process_meeting_requests_from_chat_fields [OF p]
  obtain b where b: "r = MeetingRequestsProcessed b"
    and m: "s_meeting_requests s' = s_meeting_requests s" by auto
  from a p have "chat_turn env s u = Returned (r, s', fx)"
    by (simp add: chat_turn_detect detect_intent_def)
  moreover from m a(7) have "s' \<noteq> empty_session"
    by (auto simp: empty_session_def split: option.splits)
  ultimately show ?thesis using b m by blast
qed

text \<open>
  C2. The claim asks that every turn that ends with a terminal outcome leaves the session
  empty. The turn that processes the pending meeting requests ends with such an outcome
  (events are created, conflict notifications are sent, errors are reported), and
  process_meeting_requests_from_chat returns without calling \<open>session.clear()\<close>, which
  every other terminal path of the route calls; its answer only carries
  \<open>"action": "clear_session"\<close>. Here the user has asked for the emails, one meeting
  request is pending, and the user answers \<open>yes\<close>: the event is created, the reply
  reports one scheduled meeting, and the session still holds the processed emails, the
  pending request and the scheduled meeting. A second \<open>yes\<close> creates the same event
  once more.
\<close>

theorem C2_pending_requests_turn_keeps_session:
  "s_meeting_requests inbox_session = Some [''Sync request''] \<and>
   fst (chat_route inbox_env inbox_session ''yes'') = MeetingRequestsProcessed (BatchDone 1 0 0) \<and>
   terminal (fst (chat_route inbox_env inbox_session ''yes'')) \<and>
   snd (snd (chat_route inbox_env inbox_session ''yes'')) =
     [CalendarInsert ''Team Sync'' ''bob@example.com''] \<and>
   s_processed_emails (fst (snd (chat_route inbox_env inbox_session ''yes''))) =
     Some [''Sync request''] \<and>
   s_meeting_requests (fst (snd (chat_route inbox_env inbox_session ''yes''))) =
     Some [''Sync request''] \<and>
   s_scheduled_meetings (fst (snd (chat_route inbox_env inbox_session ''yes''))) =
     Some [\<lparr>m_participant_email = ''bob@example.com'', m_event_name = ''Team Sync'',
            m_event_date = ''2026-11-04'', m_event_time = ''10 am'',
            m_meeting_link = ''https://meet.example/abc'',
            m_calendar_event_id = Some ''evt2''\<rparr>] \<and>
   fst (snd (chat_route inbox_env inbox_session ''yes'')) \<noteq> empty_session \<and>
   snd (snd (chat_route inbox_env (fst (snd (chat_route inbox_env inbox_session ''yes'')))
               ''yes'')) =
     [CalendarInsert ''Team Sync'' ''bob@example.com'']"
proof -
  obtain r0 s0 fx0 where e0: "chat_route inbox_env empty_session ''get emails'' = (r0, s0, fx0)"
    by (cases "chat_route inbox_env empty_session ''get emails''") auto
  obtain r1 s1 fx1 where e1: "chat_route inbox_env s0 ''yes'' = (r1, s1, fx1)"
    by (cases "chat_route inbox_env s0 ''yes''") auto
  obtain r2 s2 fx2 where e2: "chat_route inbox_env s1 ''yes'' = (r2, s2, fx2)"
    by (cases "chat_route inbox_env s1 ''yes''") auto
  have "(case chat_route inbox_env empty_session ''get emails'' of
           (r0, s0, fx0) \<Rightarrow>
             (case chat_route inbox_env s0 ''yes'' of
                (r1, s1, fx1) \<Rightarrow>
                  (s_meeting_requests s0, r1, fx1, s_processed_emails s1, s_meeting_requests s1,
                   s_scheduled_meetings s1, snd (snd (chat_route inbox_env s1 ''yes''))))) =
        (Some [''Sync request''], MeetingRequestsProcessed (BatchDone 1 0 0),
         [CalendarInsert ''Team Sync'' ''bob@example.com''], Some [''Sync request''],
         Some [''Sync request''],
         Some [\<lparr>m_participant_email = ''bob@example.com'', m_event_name = ''Team Sync'',
                m_event_date = ''2026-11-04'', m_event_time = ''10 am'',
                m_meeting_link = ''https://meet.example/abc'',
                m_calendar_event_id = Some ''evt2''\<rparr>],
         [CalendarInsert ''Team Sync'' ''bob@example.com''])"
    by code_simp
  then have v: "s_meeting_requests s0 = Some [''Sync request'']"
    "r1 = MeetingRequestsProcessed (BatchDone 1 0 0)"
    "fx1 = [CalendarInsert ''Team Sync'' ''bob@example.com'']"
    "s_processed_emails s1 = Some [''Sync request'']"
    "s_meeting_requests s1 = Some [''Sync request'']"
    "s_scheduled_meetings s1 =
       Some [\<lparr>m_participant_email = ''bob@example.com'', m_event_name = ''Team Sync'',
              m_event_date = ''2026-11-04'', m_event_time = ''10 am'',
              m_meeting_link = ''https://meet.example/abc'',
              m_calendar_event_id = Some ''evt2''\<rparr>]"
    "fx2 = [CalendarInsert ''Team Sync'' ''bob@example.com'']"
    by (simp_all add: e0 e1 e2)
  have i: "inbox_session = s0" by (simp add: inbox_session_def e0)
  have n: "s1 \<noteq> empty_session" using v(5) by (auto simp: empty_session_def)
  show ?thesis unfolding i e1 using v n by (simp add: e2)
qed

subsection \<open>The awaited field is the first missing one\<close>

lemma well_formed_empty: "well_formed empty_session"
  by (simp add: well_formed_def empty_session_def)

lemma well_formed_no_wait: "s_waiting_for s = None \<Longrightarrow> well_formed s"
  by (simp add: well_formed_def)

lemma schedule_prompt_or_act_wf:
  "schedule_prompt_or_act env s = Returned (r, s', fx) \<Longrightarrow> s_intent s = Some Schedule \<Longrightarrow>
   s_messages s \<noteq> None \<Longrightarrow> well_formed s'"
  by (auto simp: schedule_prompt_or_act_def clear_def well_formed_def empty_session_def
      split: option.splits prod.splits)

lemma schedule_flow_wf:
  "schedule_flow env s data u = Returned (r, s', fx) \<Longrightarrow> well_formed s \<Longrightarrow>
   s_intent s = Some Schedule \<Longrightarrow> s_messages s \<noteq> None \<Longrightarrow> well_formed s'"
  by (auto simp: schedule_flow_def store_def dest!: schedule_prompt_or_act_wf
      split: option.splits outcome.splits sum.splits if_splits)

lemma update_prompt_or_act_wf:
  "update_prompt_or_act env s = Returned (r, s', fx) \<Longrightarrow> s_intent s = Some Update \<Longrightarrow>
   s_messages s \<noteq> None \<Longrightarrow> well_formed s'"
  by (auto simp: update_prompt_or_act_def clear_def well_formed_def empty_session_def
      dest!: finish_action_clears
      split: option.splits if_splits)

lemma update_flow_wf:
  "update_flow env s u = Returned (r, s', fx) \<Longrightarrow> well_formed s \<Longrightarrow>
   s_intent s = Some Update \<Longrightarrow> s_messages s \<noteq> None \<Longrightarrow> well_formed s'"
  by (auto simp: update_flow_def dest!: update_prompt_or_act_wf
      split: option.splits outcome.splits sum.splits)

lemma ask_which_event_wf:
  "ask_which_event env s = (r, s', fx) \<Longrightarrow> s_intent s = Some Delete \<Longrightarrow>
   s_messages s \<noteq> None \<Longrightarrow> s_data s \<noteq> None \<Longrightarrow> well_formed s'"
  by (auto simp: ask_which_event_def Let_def clear_def well_formed_def empty_session_def
      split: if_splits outcome.splits list.splits)

lemma delete_act_wf: "delete_act env s d = (r, s', fx) \<Longrightarrow> well_formed s'"
  by (auto dest!: delete_act_cleared simp: well_formed_empty)

lemma delete_flow_wf:
  "delete_flow env s u = Returned (r, s', fx) \<Longrightarrow> well_formed s \<Longrightarrow>
   s_intent s = Some Delete \<Longrightarrow> s_messages s \<noteq> None \<Longrightarrow> well_formed s'"
  by (auto simp: delete_flow_def Let_def well_formed_no_wait
      dest!: ask_which_event_wf delete_act_wf
      split: option.splits sum.splits if_splits prod.splits outcome.splits)

lemma email_branch_wf: "email_branch env s u = (r, s', fx) \<Longrightarrow> well_formed s \<Longrightarrow> well_formed s'"
  by (auto simp: email_branch_def well_formed_def split: if_splits email_run.splits option.splits)

lemma ensure_defaults_wf: "well_formed s \<Longrightarrow> well_formed (ensure_defaults s)"
  by (auto simp: ensure_defaults_def well_formed_def split: option.splits)

lemma ensure_defaults_fields [simp]:
  "s_messages (ensure_defaults s) \<noteq> None"
  "s_data (ensure_defaults s) \<noteq> None"
  "s_waiting_for (ensure_defaults s) = s_waiting_for s"
  by (simp_all add: ensure_defaults_def split: option.splits)

lemma detect_intent_Inl_wf:
  assumes "detect_intent env s u = Returned (Inl (r, s', fx))" "well_formed s"
  shows "well_formed s'"
proof -
  from detect_intent_Inl_cases [OF assms(1)]
  consider "s' = s" | "process_meeting_requests_from_chat env s = (r, s', fx)" by auto
  then show ?thesis
  proof cases
    case 1
    with assms(2) show ?thesis by simp
  next
    case 2
    from process_meeting_requests_from_chat_fields [OF 2]
    have "s_intent s' = s_intent s" "s_waiting_for s' = s_waiting_for s" "s_data s' = s_data s"
      "s_messages s' = s_messages s" by simp_all
    with assms(2) show ?thesis by (auto simp: well_formed_def split: option.splits)
  qed
qed

lemma detect_intent_Inr_fields:
  "detect_intent env s u = Returned (Inr s') \<Longrightarrow>
   s_waiting_for s' = s_waiting_for s \<and> s_messages s' = s_messages s"
  by (auto simp: detect_intent_def split: if_splits outcome.splits prod.splits)

lemma well_formed_no_intent: "well_formed s \<Longrightarrow> s_intent s = None \<Longrightarrow> s_waiting_for s = None"
  by (auto simp: well_formed_def split: option.splits)

lemma chat_turn_wf:
  assumes "chat_turn env s u = Returned (r, s', fx)" "well_formed s"
  shows "well_formed s'"
proof (cases "s_intent s")
  case None
  note wf = ensure_defaults_wf [OF assms(2)]
  have nw: "s_waiting_for (ensure_defaults s) = None"
    using well_formed_no_intent [OF assms(2) None] by simp
  show ?thesis
  proof (cases "is_email_processing_intent u")
    case True
    with None assms(1) have "email_branch env (ensure_defaults s) u = (r, s', fx)"
      by (simp add: chat_turn_email)
    then show ?thesis using wf by (rule email_branch_wf)
  next
    case False
    note ct = chat_turn_detect [OF False None, of env]
    show ?thesis
    proof (cases "detect_intent env (ensure_defaults s) u")
      case (Raised e)
      with ct assms(1) show ?thesis by simp
    next
      case (Returned x)
      show ?thesis
      proof (cases x)
        case (Inl t)
        with Returned ct assms(1) have "detect_intent env (ensure_defaults s) u = Returned (Inl (r, s', fx))"
          by simp
        then show ?thesis using wf by (rule detect_intent_Inl_wf)
      next
        case (Inr s1)
        with Returned have d: "detect_intent env (ensure_defaults s) u = Returned (Inr s1)" by simp
        from detect_intent_Inr_fields [OF d] nw
        have f: "s_waiting_for s1 = None" "s_messages s1 \<noteq> None" by simp_all
        then have w1: "well_formed s1" by (simp add: well_formed_no_wait)
        from d ct assms(1) have
          "(case s_intent s1 of
             None \<Rightarrow> Raised (key_error ''intent'')
           | Some Schedule \<Rightarrow> schedule_flow env s1 (case s_data s of None \<Rightarrow> Map.empty | Some d \<Rightarrow> d) u
           | Some Update \<Rightarrow> update_flow env s1 u
           | Some Delete \<Rightarrow> delete_flow env s1 u) = Returned (r, s', fx)"
          by simp
        then show ?thesis
          using w1 f(2)
          by (auto split: option.splits intent.splits
              dest: schedule_flow_wf update_flow_wf delete_flow_wf)
      qed
    qed
  qed
next
  case (Some i)
  note wf = ensure_defaults_wf [OF assms(2)]
  from Some assms(1) have
    "(case i of
        Schedule \<Rightarrow> schedule_flow env (ensure_defaults s) (case s_data s of None \<Rightarrow> Map.empty | Some d \<Rightarrow> d) u
      | Update \<Rightarrow> update_flow env (ensure_defaults s) u
      | Delete \<Rightarrow> delete_flow env (ensure_defaults s) u) = Returned (r, s', fx)"
    by (simp add: chat_turn_def Let_def)
  moreover have "s_intent (ensure_defaults s) = Some i" "s_messages (ensure_defaults s) \<noteq> None"
    using Some by simp_all
  ultimately show ?thesis
    using wf
    by (cases i) (simp_all add: schedule_flow_wf update_flow_wf delete_flow_wf)
qed

lemma chat_route_wf:
  "chat_route env s message = (r, s', fx) \<Longrightarrow> well_formed s \<Longrightarrow> well_formed s'"
  by (auto simp: chat_route_def Let_def clear_def well_formed_empty dest: chat_turn_wf
      split: if_splits outcome.splits)

lemma reachable_well_formed: "reachable s \<Longrightarrow> well_formed s"
  by (induction rule: reachable.induct) (auto simp: well_formed_empty dest: chat_route_wf)

subsection \<open>A rejected value for the awaited field\<close>

lemma well_formed_awaiting:
  assumes "well_formed s" "s_waiting_for s = Some f"
  shows "ensure_defaults s = s"
    and "\<exists>d. s_data s = Some d \<and> (s_intent s = Some Schedule \<longrightarrow> get_missing_field_prompt d = Some f)"
  using assms by (auto simp: well_formed_def ensure_defaults_def split: option.splits)

lemma session_unchanged:
  "s_data s = Some d \<Longrightarrow> s_waiting_for s = Some f \<Longrightarrow>
   s\<lparr>s_data := Some d, s_waiting_for := Some f\<rparr> = s"
  by simp

lemma schedule_flow_rejected:
  assumes "s_waiting_for s = Some f" "s_data s = Some d" "get_missing_field_prompt d = Some f"
    and "rejects env Schedule f u"
  shows "\<exists>r. schedule_flow env s d u = Returned (r, s, []) \<and> asks_for r = Some f"
proof (cases f)
  case ParticipantEmail
  with assms show ?thesis
    by (simp add: schedule_flow_def schedule_prompt_or_act_def)
next
  case EventDate
  with assms show ?thesis by (simp add: schedule_flow_def)
next
  case EventTime
  with assms show ?thesis
    by (auto simp: schedule_flow_def time_rejected_def split: outcome.splits)
qed (use assms in simp_all)

lemma update_flow_rejected:
  assumes "s_waiting_for s = Some f" "s_data s = Some d" "rejects env Update f u"
  shows "\<exists>r. update_flow env s u = Returned (r, s, []) \<and> asks_for r = Some f"
proof (cases f)
  case NewDate
  with assms show ?thesis
    by (simp add: update_flow_def process_update_field_input_def Let_def)
next
  case NewTime
  with assms show ?thesis
    by (auto simp: update_flow_def process_update_field_input_def Let_def time_rejected_def
        split: outcome.splits)
qed (use assms in simp_all)

text \<open>
  C1. In every session that a conversation can reach, when a field is awaited and the
  validator of that field rejects the text of the turn (an invalid address, a date that
  is not read or lies in the past, a text without a time), the reply asks for the same
  field again and the session after the turn is the session before it: nothing is
  written into the record and the same field is awaited. No effect occurs.
\<close>

theorem C1_rejected_input_reprompts:
  assumes "reachable s"
    and "strip message \<noteq> []"
    and "s_intent s = Some i"
    and "s_waiting_for s = Some f"
    and "rejects env i f (correct_schedule_spelling (strip message))"
  shows "\<exists>r. chat_route env s message = (r, s, []) \<and> asks_for r = Some f"
proof -
  let ?u = "correct_schedule_spelling (strip message)"
  have wf: "well_formed s" using assms(1) by (rule reachable_well_formed)
  from well_formed_awaiting [OF wf assms(4)] assms(3)
  obtain d where e: "ensure_defaults s = s" and d: "s_data s = Some d"
    and m: "i = Schedule \<longrightarrow> get_missing_field_prompt d = Some f"
    by auto
  have "\<exists>r. chat_turn env s ?u = Returned (r, s, []) \<and> asks_for r = Some f"
  proof (cases i)
    case Schedule
    with m have "get_missing_field_prompt d = Some f" by simp
    from schedule_flow_rejected [OF assms(4) d this] assms(5) Schedule
    have "\<exists>r. schedule_flow env s d ?u = Returned (r, s, []) \<and> asks_for r = Some f" by simp
    then show ?thesis using Schedule assms(3) d e by (simp add: chat_turn_def Let_def)
  next
    case Update
    from update_flow_rejected [OF assms(4) d] assms(5) Update
    have "\<exists>r. update_flow env s ?u = Returned (r, s, []) \<and> asks_for r = Some f" by simp
    then show ?thesis using Update assms(3) d e by (simp add: chat_turn_def Let_def)
  next
    case Delete
    with assms(5) show ?thesis by simp
  qed
  then show ?thesis using assms(2) by (auto simp: chat_route_def Let_def)
qed

theorem C1_rejected_input_reprompts_witness:
  "\<exists>r. chat_route (sample_env ''Team Sync'')
          (fst (snd (chat_route (sample_env ''Team Sync'') empty_session ''schedule a call'')))
          ''not an email'' =
        (r, fst (snd (chat_route (sample_env ''Team Sync'') empty_session ''schedule a call'')), []) \<and>
       asks_for r = Some ParticipantEmail"
proof -
  let ?env = "sample_env ''Team Sync''"
  let ?c = "chat_route ?env empty_session ''schedule a call''"
  let ?s = "fst (snd ?c)"
  have "?c = (fst ?c, ?s, snd (snd ?c))" by simp
  with reachable.start have r: "reachable ?s" by (rule reachable.turn)
  have n: "strip ''not an email'' \<noteq> []" by code_simp
  have i: "s_intent ?s = Some Schedule" by code_simp
  have w: "s_waiting_for ?s = Some ParticipantEmail" by code_simp
  have j: "rejects ?env Schedule ParticipantEmail (correct_schedule_spelling (strip ''not an email''))"
    by code_simp
  from C1_rejected_input_reprompts [OF r n i w j] show ?thesis .
qed

subsection \<open>A complete record ends the conversation\<close>

lemma complete_schedule_record_ends:
  assumes "s_data s = Some d" "get_missing_field_prompt d = None"
  shows "\<exists>r fx. schedule_prompt_or_act env s = Returned (r, empty_session, fx) \<and> terminal r"
proof -
  obtain r fx sched where c: "schedule_complete env (s_scheduled_meetings s) d = (r, fx, sched)"
    by (cases "schedule_complete env (s_scheduled_meetings s) d") auto
  then have "terminal r" by (rule schedule_complete_terminal)
  moreover have "schedule_prompt_or_act env s = Returned (r, empty_session, fx)"
    using assms c by (simp add: schedule_prompt_or_act_def clear_def)
  ultimately show ?thesis by blast
qed

lemma complete_update_record_ends:
  assumes "s_data s = Some d" "get_missing_update_field_prompt d = None"
  shows "\<exists>r fx. update_prompt_or_act env s = Returned (r, empty_session, fx) \<and> terminal r"
proof (cases "services_have env [''calendar'', ''gmail'']")
  case False
  with assms show ?thesis by (simp add: update_prompt_or_act_def clear_def)
next
  case True
  let ?res = "update_event_with_sync (e_calendar env) (e_mail env) (e_parse_future env)
                (e_parse_plain env) (e_now env) (e_user_email env) (s_scheduled_meetings s)
                (field_value d EventName) (field_value d NewDate) (field_value d NewTime)"
  obtain r s' fx where f: "finish_action env s ?res = (r, s', fx)"
    by (cases "finish_action env s ?res") auto
  from finish_action_clears [OF f] have "s' = empty_session" "terminal r" by simp_all
  moreover have "update_prompt_or_act env s = Returned (r, s', fx)"
    using assms True f by (simp add: update_prompt_or_act_def)
  ultimately show ?thesis by blast
qed

lemma delete_act_ends: "\<exists>r fx. delete_act env s d = (r, empty_session, fx) \<and> terminal r"
proof (cases "services_have env [''calendar'', ''gmail'']")
  case False
  then show ?thesis by (simp add: delete_act_def clear_def)
next
  case True
  let ?res = "delete_event_with_sync (e_calendar env) (e_mail env) (e_user_email env)
                (s_scheduled_meetings s) (field_value d EventName)"
  obtain r s' fx where f: "finish_action env s ?res = (r, s', fx)"
    by (cases "finish_action env s ?res") auto
  from finish_action_clears [OF f] have "s' = empty_session" "terminal r" by simp_all
  moreover have "delete_act env s d = (r, s', fx)"
    using True f by (simp add: delete_act_def)
  ultimately show ?thesis by blast
qed

end
